theory Spec2Isabelle
  imports Complex_Main "HOL-Library.AList"
begin

section \<open>Modelling conventions\<close>

text \<open>
  The development embeds the reconciliation core of the family-office workflow:
  \<^verbatim>\<open>OpenBankingFetcher\<close> (\<^verbatim>\<open>src/openbanking-fetcher.ts\<close>) and
  \<^verbatim>\<open>SmartCryptoFetcher\<close> (second half of \<^verbatim>\<open>src/types.ts\<close>).

  \<^item> A JavaScript \<^verbatim>\<open>number\<close> is a \<^typ>\<open>real\<close>. The data is read from JSON, so it is finite
    (no NaN, no infinity); the rounding of IEEE doubles is not modelled. Every division
    of the source is guarded by a test that its divisor is strictly positive, and the
    model keeps those guards, so HOL's \<open>x / 0 = 0\<close> is never relied on. The one place
    where the source computes NaN from well-typed input, the merge of a row into a value
    that is not a position, is modelled by a constructor of its own (\<open>Garbage\<close>).
  \<^item> Records follow the interfaces of \<^verbatim>\<open>src/types.ts\<close>; a field that the code reads
    defensively from untyped or optional data is an \<open>option\<close>.
  \<^item> The clock, the network (explorer, pricing source) and the file system are
    parameters of the functions that use them.
  \<^item> \<^verbatim>\<open>a || b\<close> on an optional value is written out as a case distinction on its
    truthiness (absent, \<open>0\<close> and the empty string are falsy).
  \<^item> An object literal \<^verbatim>\<open>{}\<close> used as a dictionary is a \<open>dict\<close> (below): its own
    properties in insertion order, together with what a lookup inherits from
    \<^verbatim>\<open>Object.prototype\<close>.
\<close>

section \<open>JavaScript objects used as dictionaries\<close>

text \<open>
  \<^verbatim>\<open>const oldPositions: Record<string, any> = {}\<close> creates an ordinary object. Reading
  \<^verbatim>\<open>obj[key]\<close> consults the object's own properties first and then its prototype chain,
  so the member names of \<^verbatim>\<open>Object.prototype\<close> read as (truthy) functions on an empty
  object. Writing \<^verbatim>\<open>obj[key] = v\<close> creates or overwrites an own property, except for
  the key \<^verbatim>\<open>__proto__\<close>, whose inherited setter replaces the object's prototype by
  \<open>v\<close> and creates no own property (an object parsed from JSON may have an own
  property of that name, which is then overwritten like any other).
\<close>

definition object_prototype_names :: "string list" where
  "object_prototype_names =
     [''constructor'', ''__defineGetter__'', ''__defineSetter__'', ''hasOwnProperty'',
      ''__lookupGetter__'', ''__lookupSetter__'', ''isPrototypeOf'',
      ''propertyIsEnumerable'', ''toString'', ''valueOf'', ''toLocaleString'']"

record 'v dict =
  own :: "(string \<times> 'v) list"
  proto :: "'v option"

definition empty_dict :: "'v dict" where
  "empty_dict = \<lparr>own = [], proto = None\<rparr>"

text \<open>The result of \<^verbatim>\<open>obj[key]\<close>: a stored object, some other truthy value (an inherited
  function or a truthy primitive, on which every further field read is \<^verbatim>\<open>undefined\<close>),
  or a falsy value.\<close>

datatype 'v lookup = Found 'v | Alien | Missing

text \<open>\<open>prop v k\<close> tells whether the stored object \<open>v\<close> has an own property \<open>k\<close> and,
  if so, whether its value is truthy; it is consulted when \<open>v\<close> has become the
  prototype.\<close>

definition dict_get :: "('v \<Rightarrow> string \<Rightarrow> bool option) \<Rightarrow> 'v dict \<Rightarrow> string \<Rightarrow> 'v lookup" where
  "dict_get prop d k =
     (case map_of (own d) k of
        Some v \<Rightarrow> Found v
      | None \<Rightarrow>
          if k = ''__proto__'' then (case proto d of Some p \<Rightarrow> Found p | None \<Rightarrow> Alien)
          else (case (case proto d of Some p \<Rightarrow> prop p k | None \<Rightarrow> None) of
                  Some truthy \<Rightarrow> if truthy then Alien else Missing
                | None \<Rightarrow> if k \<in> set object_prototype_names then Alien else Missing))"

definition dict_set :: "string \<Rightarrow> 'v \<Rightarrow> 'v dict \<Rightarrow> 'v dict" where
  "dict_set k v d =
     (if k = ''__proto__'' \<and> map_of (own d) k = None then d\<lparr>proto := Some v\<rparr>
      else d\<lparr>own := AList.update k v (own d)\<rparr>)"

text \<open>\<^verbatim>\<open>Object.keys\<close> and \<^verbatim>\<open>Object.values\<close> enumerate the own properties: array
  indices (canonical decimal numerals below \<open>2^32 - 1\<close>) first, in ascending numeric
  order, then every other key in insertion order.\<close>

definition index_value :: "string \<Rightarrow> int" where
  "index_value s = foldl (\<lambda>n c. 10 * n + (of_char c - 48)) 0 s"

definition is_digit :: "char \<Rightarrow> bool" where
  "is_digit c = (48 \<le> (of_char c :: int) \<and> (of_char c :: int) \<le> 57)"

definition is_array_index :: "string \<Rightarrow> bool" where
  "is_array_index s =
     (s \<noteq> [] \<and> list_all is_digit s \<and> (s = ''0'' \<or> hd s \<noteq> CHR ''0'')
      \<and> index_value s < 4294967295)"

definition object_entries :: "'v dict \<Rightarrow> (string \<times> 'v) list" where
  "object_entries d =
     sort_key (\<lambda>kv. index_value (fst kv)) (filter (\<lambda>kv. is_array_index (fst kv)) (own d))
     @ filter (\<lambda>kv. \<not> is_array_index (fst kv)) (own d)"

definition object_keys :: "'v dict \<Rightarrow> string list" where
  "object_keys d = map fst (object_entries d)"

definition object_values :: "'v dict \<Rightarrow> 'v list" where
  "object_values d = map snd (object_entries d)"

section \<open>Data model (\<^verbatim>\<open>src/types.ts\<close>)\<close>

record position =
  symbol :: string
  name :: string
  shares :: real
  currentPrice :: real
  marketValue :: real
  costBasis :: real
  unrealizedGainLoss :: real
  account :: string
  sector :: string
  currency :: string
  isin :: "string option"
  lastUpdated :: "string option"

text \<open>The own properties of a \<^verbatim>\<open>Position\<close> object and their truthiness.\<close>

definition position_prop :: "position \<Rightarrow> string \<Rightarrow> bool option" where
  "position_prop p k =
     (if k = ''symbol'' then Some (symbol p \<noteq> [])
      else if k = ''name'' then Some (name p \<noteq> [])
      else if k = ''shares'' then Some (shares p \<noteq> 0)
      else if k = ''currentPrice'' then Some (currentPrice p \<noteq> 0)
      else if k = ''marketValue'' then Some (marketValue p \<noteq> 0)
      else if k = ''costBasis'' then Some (costBasis p \<noteq> 0)
      else if k = ''unrealizedGainLoss'' then Some (unrealizedGainLoss p \<noteq> 0)
      else if k = ''account'' then Some (account p \<noteq> [])
      else if k = ''sector'' then Some (sector p \<noteq> [])
      else if k = ''currency'' then Some (currency p \<noteq> [])
      else if k = ''isin'' then map_option (\<lambda>s. s \<noteq> []) (isin p)
      else if k = ''lastUpdated'' then map_option (\<lambda>s. s \<noteq> []) (lastUpdated p)
      else None)"

text \<open>
  An element of a category list of a snapshot. \<open>Entry p\<close> is a well-formed
  \<^verbatim>\<open>Position\<close>. \<open>Garbage a\<close> is the object that the consolidation loop of
  \<^verbatim>\<open>transformToInternalFormat\<close> builds when it merges a row into a value that is not a
  position: it has no \<^verbatim>\<open>symbol\<close>, \<^verbatim>\<open>name\<close> or \<^verbatim>\<open>isin\<close>, its
  \<^verbatim>\<open>shares\<close>, \<^verbatim>\<open>marketValue\<close>, \<^verbatim>\<open>costBasis\<close> and \<^verbatim>\<open>unrealizedGainLoss\<close> are NaN, its
  \<^verbatim>\<open>currentPrice\<close> is \<open>0\<close> and its \<^verbatim>\<open>account\<close> is \<open>a\<close>. (When the value merged
  into was a string, the object also has the characters of the string as index
  properties; nothing reads them.)
\<close>

datatype entry = Entry position | Garbage string

fun entry_prop :: "entry \<Rightarrow> string \<Rightarrow> bool option" where
  "entry_prop (Entry p) k = position_prop p k"
| "entry_prop (Garbage a) k =
     (if k \<in> set [''shares'', ''marketValue'', ''costBasis'', ''unrealizedGainLoss'',
                   ''currentPrice'']
      then Some False
      else if k = ''account'' then Some (a \<noteq> [])
      else None)"

record PortfolioPositions =
  equities :: "entry list"
  funds :: "entry list"
  bonds :: "entry list"
  cash :: "entry list"
  private_equity :: "entry list"
  private_debt :: "entry list"
  real_estate :: "entry list"
  crowdfunding :: "entry list"
  crypto :: "entry list"

datatype change_type = New | Closed | Value_change | Share_change

record PositionChange =
  ctype :: change_type
  change_symbol :: string
  oldValue :: "real option"
  newValue :: "real option"
  oldShares :: "real option"
  newShares :: "real option"
  percentChange :: "real option"

text \<open>A raw account of the aggregation provider (\<^verbatim>\<open>accountsData: any[]\<close>); the fields
  are the ones that \<^verbatim>\<open>transformToInternalFormat\<close> reads. \<open>None\<close> is an absent field
  (for \<open>iban\<close>, \<open>acc_number\<close>, \<open>webid\<close>, \<open>id_type\<close> and \<open>balance\<close>, which are only
  tested for truthiness, also a \<^verbatim>\<open>null\<close> one). \<open>original_name\<close> and \<open>acc_type\<close> hold
  the text that a template literal renders for the field.\<close>

record raw_account =
  acc_id :: real
  iban :: "string option"
  acc_number :: "string option"
  webid :: "string option"
  original_name :: string
  id_type :: "real option"
  acc_type :: "string option"
  balance :: "real option"

record PortfolioData =
  data_lastUpdated :: string
  totalNetWorth :: real
  accounts :: "raw_account list"
  positions :: PortfolioPositions

record PowensInvestment =
  code_type :: string
  code :: string
  stock_symbol :: "string option"
  label :: string
  quantity :: "real option"
  unitvalue :: "real option"
  valuation :: "real option"
  unitprice :: "real option"
  diff :: "real option"
  id_account :: real
  vdate :: string

record PowensInvestmentData =
  investments :: "PowensInvestment list"
  total_valuation :: real

record CategorizationPatterns =
  real_estate_terms :: "string list"
  funds_terms :: "string list"
  private_equity_terms :: "string list"
  private_debt_terms :: "string list"
  crowdfunding_terms :: "string list"

text \<open>
  Built-in string functions of the host language that the code calls and that have no
  counterpart on \<^typ>\<open>string\<close>: the text of a number (\<^verbatim>\<open>String(n)\<close>, and a number inside
  a template literal), \<^verbatim>\<open>toLowerCase\<close> and \<^verbatim>\<open>toUpperCase\<close>. They are parameters of
  the model, so every theorem holds for whatever these functions are.
\<close>

record host =
  number_text :: "real \<Rightarrow> string"
  toLowerCase :: "string \<Rightarrow> string"
  toUpperCase :: "string \<Rightarrow> string"

definition or_zero :: "real option \<Rightarrow> real" where
  "or_zero x = (case x of None \<Rightarrow> 0 | Some v \<Rightarrow> v)"

definition present :: "string option \<Rightarrow> bool" where
  "present x = (case x of None \<Rightarrow> False | Some s \<Rightarrow> s \<noteq> [])"

definition text_of :: "string option \<Rightarrow> string" where
  "text_of x = (case x of None \<Rightarrow> ''undefined'' | Some s \<Rightarrow> s)"

section \<open>Position normalizer (\<^verbatim>\<open>transformToInternalFormat\<close>)\<close>

text \<open>Lines 449-460: the key under which an account is deduplicated. \<open>or_zero\<close> and
  \<open>present\<close> are the truthiness tests of \<^verbatim>\<open>||\<close> and \<^verbatim>\<open>!\<close>.\<close>

definition account_key :: "host \<Rightarrow> raw_account \<Rightarrow> string" where
  "account_key h a =
     (if present (iban a) then text_of (iban a)
      else if present (acc_number a) then text_of (acc_number a)
      else if present (webid a) then text_of (webid a)
      else original_name a @ ''-''
           @ (if or_zero (id_type a) \<noteq> 0 then number_text h (or_zero (id_type a))
              else text_of (acc_type a)))"

text \<open>Lines 444-470: the loop over the accounts, with its three accumulators.\<close>

record account_state =
  uniqueAccounts :: "raw_account list"
  seenAccounts :: "string list"
  uniqueAccountIds :: "real list"

definition add_account :: "host \<Rightarrow> account_state \<Rightarrow> raw_account \<Rightarrow> account_state" where
  "add_account h st a =
     (if account_key h a \<notin> set (seenAccounts st)
      then \<lparr>uniqueAccounts = uniqueAccounts st @ [a],
            seenAccounts = seenAccounts st @ [account_key h a],
            uniqueAccountIds = uniqueAccountIds st @ [acc_id a]\<rparr>
      else st)"

definition dedup_accounts :: "host \<Rightarrow> raw_account list \<Rightarrow> account_state" where
  "dedup_accounts h accountsData =
     foldl (add_account h) \<lparr>uniqueAccounts = [], seenAccounts = [], uniqueAccountIds = []\<rparr>
       accountsData"

text \<open>Lines 483-485: the test a raw instrument row has to pass.\<close>

definition eligible :: "PowensInvestment \<Rightarrow> bool" where
  "eligible item =
     (code_type item = ''ISIN'' \<and> code item \<noteq> ''XX-liquidity'' \<and> 0 < or_zero (valuation item))"

definition row_symbol :: "PowensInvestment \<Rightarrow> string" where
  "row_symbol item = (if present (stock_symbol item) then text_of (stock_symbol item) else code item)"

text \<open>\<^verbatim>\<open>String(inv.id_account || '')\<close>, line 495.\<close>

definition account_text :: "host \<Rightarrow> PowensInvestment \<Rightarrow> string" where
  "account_text h item = (if id_account item \<noteq> 0 then number_text h (id_account item) else [])"

text \<open>Lines 487-500: the position built from a row.\<close>

definition to_position :: "host \<Rightarrow> PowensInvestment \<Rightarrow> position" where
  "to_position h item =
     \<lparr>symbol = row_symbol item,
      name = label item,
      shares = or_zero (quantity item),
      currentPrice = or_zero (unitvalue item),
      marketValue = or_zero (valuation item),
      costBasis = or_zero (quantity item) * or_zero (unitprice item),
      unrealizedGainLoss = or_zero (diff item),
      account = account_text h item,
      sector = ''Unknown'',
      currency = ''EUR'',
      isin = Some (code item),
      lastUpdated = Some (vdate item)\<rparr>"

text \<open>Lines 477-502.\<close>

fun collect_investments :: "host \<Rightarrow> real list \<Rightarrow> PowensInvestment list \<Rightarrow> position list" where
  "collect_investments h ids [] = []"
| "collect_investments h ids (item # invs) =
     (if id_account item \<notin> set ids then collect_investments h ids invs
      else if eligible item then to_position h item # collect_investments h ids invs
      else collect_investments h ids invs)"

text \<open>Lines 505-516: exact duplicates are recognised by a signature string.\<close>

definition signature :: "host \<Rightarrow> position \<Rightarrow> string" where
  "signature h item =
     symbol item @ ''-'' @ number_text h (shares item) @ ''-'' @ number_text h (marketValue item)
     @ ''-'' @ number_text h (currentPrice item)"

fun remove_exact_duplicates :: "host \<Rightarrow> string list \<Rightarrow> position list \<Rightarrow> position list" where
  "remove_exact_duplicates h seenCombinations [] = []"
| "remove_exact_duplicates h seenCombinations (item # invs) =
     (if signature h item \<notin> set seenCombinations
      then item # remove_exact_duplicates h (signature h item # seenCombinations) invs
      else remove_exact_duplicates h seenCombinations invs)"

text \<open>Lines 526-539: a row merged into the position already stored for its symbol.\<close>

definition merge_position :: "position \<Rightarrow> position \<Rightarrow> position" where
  "merge_position existing item =
     (let totalShares = shares existing + shares item;
          totalMarketValue = marketValue existing + marketValue item;
          totalCostBasis = costBasis existing + costBasis item
      in existing\<lparr>shares := totalShares,
                  marketValue := totalMarketValue,
                  costBasis := totalCostBasis,
                  currentPrice := (if 0 < totalShares then totalMarketValue / totalShares else 0),
                  unrealizedGainLoss := totalMarketValue - totalCostBasis,
                  account := account existing @ '','' @ account item\<rparr>)"

text \<open>
  Lines 521-543: one iteration of the consolidation loop. \<^verbatim>\<open>consolidatedPositions\<close> is
  an object literal, so \<^verbatim>\<open>consolidatedPositions[symbol]\<close> is truthy also for a symbol that
  an empty object inherits; the merge then adds a number to \<^verbatim>\<open>undefined\<close> and stores a
  garbage object whose account text starts with \<^verbatim>\<open>undefined\<close>.
\<close>

definition consolidate_step :: "entry dict \<Rightarrow> position \<Rightarrow> entry dict" where
  "consolidate_step consolidatedPositions item =
     (case dict_get entry_prop consolidatedPositions (symbol item) of
        Found (Entry existing) \<Rightarrow>
          dict_set (symbol item) (Entry (merge_position existing item)) consolidatedPositions
      | Found (Garbage a) \<Rightarrow>
          dict_set (symbol item) (Garbage (a @ '','' @ account item)) consolidatedPositions
      | Alien \<Rightarrow>
          dict_set (symbol item) (Garbage (''undefined,'' @ account item)) consolidatedPositions
      | Missing \<Rightarrow> dict_set (symbol item) (Entry item) consolidatedPositions)"

definition consolidate :: "position list \<Rightarrow> entry dict" where
  "consolidate uniqueInvestments = foldl consolidate_step empty_dict uniqueInvestments"

text \<open>\<^verbatim>\<open>s.includes(needle)\<close> and \<^verbatim>\<open>s.startsWith(needle)\<close>.\<close>

fun startsWith :: "string \<Rightarrow> string \<Rightarrow> bool" where
  "startsWith s [] = True"
| "startsWith [] (c # cs) = False"
| "startsWith (d # ds) (c # cs) = (d = c \<and> startsWith ds cs)"

fun includes_text :: "string \<Rightarrow> string \<Rightarrow> bool" where
  "includes_text [] needle = (needle = [])"
| "includes_text (c # cs) needle = (startsWith (c # cs) needle \<or> includes_text cs needle)"

definition empty_categories :: PortfolioPositions where
  "empty_categories =
     \<lparr>equities = [], funds = [], bonds = [], cash = [], private_equity = [],
      private_debt = [], real_estate = [], crowdfunding = [], crypto = []\<rparr>"

text \<open>Lines 560-579: the category of one consolidated position. A garbage object has
  neither \<^verbatim>\<open>name\<close> nor \<^verbatim>\<open>isin\<close>, which read as the empty string.\<close>

definition categorize ::
  "host \<Rightarrow> CategorizationPatterns \<Rightarrow> PortfolioPositions \<Rightarrow> entry \<Rightarrow> PortfolioPositions" where
  "categorize h patterns categories item =
     (let nameLower = toLowerCase h (case item of Entry p \<Rightarrow> name p | Garbage a \<Rightarrow> []);
          isinUpper = toUpperCase h (case item of Entry p \<Rightarrow> (case isin p of Some i \<Rightarrow> i | None \<Rightarrow> [])
                                              | Garbage a \<Rightarrow> [])
      in if list_ex (includes_text nameLower) (real_estate_terms patterns)
         then categories\<lparr>real_estate := real_estate categories @ [item]\<rparr>
         else if list_ex (includes_text nameLower) (funds_terms patterns)
         then categories\<lparr>funds := funds categories @ [item]\<rparr>
         else if list_ex (includes_text nameLower) (private_equity_terms patterns)
         then categories\<lparr>private_equity := private_equity categories @ [item]\<rparr>
         else if list_ex (includes_text nameLower) (private_debt_terms patterns)
         then categories\<lparr>private_debt := private_debt categories @ [item]\<rparr>
         else if list_ex (includes_text nameLower) (crowdfunding_terms patterns)
         then categories\<lparr>crowdfunding := crowdfunding categories @ [item]\<rparr>
         else if startsWith isinUpper ''FR0000''
         then categories\<lparr>equities := equities categories @ [item]\<rparr>
         else categories\<lparr>equities := equities categories @ [item]\<rparr>)"

text \<open>Lines 439-593. \<open>timestamp\<close> is the clock reading of line 440.\<close>

definition transformToInternalFormat ::
  "host \<Rightarrow> CategorizationPatterns \<Rightarrow> string \<Rightarrow> raw_account list \<Rightarrow> PowensInvestmentData
     \<Rightarrow> PortfolioData" where
  "transformToInternalFormat h patterns timestamp accountsData investmentsData =
     (let st = dedup_accounts h accountsData;
          allInvestments =
            collect_investments h (uniqueAccountIds st) (investments investmentsData);
          uniqueInvestments = remove_exact_duplicates h [] allInvestments;
          consolidatedPositions = consolidate uniqueInvestments;
          categories =
            foldl (categorize h patterns) empty_categories (object_values consolidatedPositions);
          accountsTotal = foldl (\<lambda>total a. total + or_zero (balance a)) 0 (uniqueAccounts st)
      in \<lparr>data_lastUpdated = timestamp, totalNetWorth = accountsTotal,
          accounts = uniqueAccounts st, positions = categories\<rparr>)"

text \<open>
  What it means for an element of the snapshot to originate from a raw instrument row
  that passes the test of lines 483-485: a position carries the row's symbol, label and
  code; a garbage object carries the row's account text at the end of its own.
\<close>

definition ends_with :: "string \<Rightarrow> string \<Rightarrow> bool" where
  "ends_with s needle = startsWith (rev s) (rev needle)"

definition originates_from :: "host \<Rightarrow> entry \<Rightarrow> PowensInvestment \<Rightarrow> bool" where
  "originates_from h e item =
     (eligible item
      \<and> (case e of
            Entry p \<Rightarrow> symbol p = row_symbol item \<and> name p = label item \<and> isin p = Some (code item)
          | Garbage a \<Rightarrow> ends_with a ('','' @ account_text h item)))"

text \<open>All positions of a snapshot, category by category.\<close>

definition all_positions :: "PortfolioPositions \<Rightarrow> entry list" where
  "all_positions ps =
     equities ps @ funds ps @ bonds ps @ cash ps @ private_equity ps @ private_debt ps
     @ real_estate ps @ crowdfunding ps @ crypto ps"

section \<open>Snapshot differencer (\<^verbatim>\<open>isSignificantChange\<close>, \<^verbatim>\<open>detectChanges\<close>)\<close>

text \<open>Truthiness of an optional number: \<^verbatim>\<open>undefined\<close> and \<open>0\<close> are falsy.\<close>

definition truthy :: "real option \<Rightarrow> bool" where
  "truthy x = (case x of None \<Rightarrow> False | Some v \<Rightarrow> v \<noteq> 0)"

text \<open>\<^verbatim>\<open>isSignificantChange\<close>, lines 86-104. The two thresholds are read from the
  environment with \<^verbatim>\<open>parseFloat\<close> (defaults \<open>5.0\<close> and \<open>1000.0\<close>) and are
  parameters here; a setting that is no number is not modelled.\<close>

definition isSignificantChange :: "real \<Rightarrow> real \<Rightarrow> PositionChange \<Rightarrow> bool" where
  "isSignificantChange percentThreshold valueThreshold change =
     (if ctype change = New \<or> ctype change = Closed then True
      else if truthy (percentChange change)
              \<and> percentThreshold \<le> \<bar>case percentChange change of Some pc \<Rightarrow> pc | None \<Rightarrow> 0\<bar>
           then True
      else if truthy (oldValue change) \<and> truthy (newValue change)
           then (case (oldValue change, newValue change) of
                   (Some ov, Some nv) \<Rightarrow> valueThreshold \<le> \<bar>nv - ov\<bar>
                 | _ \<Rightarrow> False)
      else False)"

text \<open>\<^verbatim>\<open>pos.symbol || pos.isin || ''\<close>, lines 271 and 278.\<close>

fun position_key :: "entry \<Rightarrow> string" where
  "position_key (Entry p) =
     (if symbol p \<noteq> [] then symbol p else (case isin p of Some i \<Rightarrow> i | None \<Rightarrow> []))"
| "position_key (Garbage a) = []"

text \<open>One pass of the inner loops of lines 270-282 over a category list.\<close>

fun flatten_category :: "position dict \<Rightarrow> entry list \<Rightarrow> position dict" where
  "flatten_category d [] = d"
| "flatten_category d (Entry p # ps) =
     (if position_key (Entry p) \<noteq> []
      then flatten_category (dict_set (position_key (Entry p)) p d) ps
      else flatten_category d ps)"
| "flatten_category d (Garbage a # ps) = flatten_category d ps"

text \<open>The categories that are compared, in the order of line 265; \<^verbatim>\<open>bonds\<close> and
  \<^verbatim>\<open>cash\<close> are not among them.\<close>

definition compared_categories :: "PortfolioPositions \<Rightarrow> entry list list" where
  "compared_categories ps =
     [equities ps, funds ps, private_equity ps, private_debt ps, real_estate ps,
      crowdfunding ps, crypto ps]"

definition flatten_positions :: "PortfolioData \<Rightarrow> position dict" where
  "flatten_positions data = foldl flatten_category empty_dict (compared_categories (positions data))"

text \<open>Lines 286-295: new positions.\<close>

definition new_change :: "string \<Rightarrow> position \<Rightarrow> PositionChange" where
  "new_change s p =
     \<lparr>ctype = New, change_symbol = s, oldValue = None, newValue = Some (marketValue p),
      oldShares = None, newShares = Some (shares p), percentChange = None\<rparr>"

definition new_changes :: "position dict \<Rightarrow> position dict \<Rightarrow> PositionChange list" where
  "new_changes oldPositions newPositions =
     concat (map (\<lambda>(s, p). case dict_get position_prop oldPositions s of
                               Missing \<Rightarrow> [new_change s p]
                             | _ \<Rightarrow> [])
                 (object_entries newPositions))"

text \<open>Lines 298-307: closed positions.\<close>

definition closed_change :: "string \<Rightarrow> position \<Rightarrow> PositionChange" where
  "closed_change s p =
     \<lparr>ctype = Closed, change_symbol = s, oldValue = Some (marketValue p), newValue = None,
      oldShares = Some (shares p), newShares = None, percentChange = None\<rparr>"

definition closed_changes :: "position dict \<Rightarrow> position dict \<Rightarrow> PositionChange list" where
  "closed_changes oldPositions newPositions =
     concat (map (\<lambda>(s, p). case dict_get position_prop newPositions s of
                               Missing \<Rightarrow> [closed_change s p]
                             | _ \<Rightarrow> [])
                 (object_entries oldPositions))"

text \<open>Lines 310-348: changed positions. \<open>newPos\<close> is whatever \<^verbatim>\<open>newPositions[symbol]\<close>
  reads; when it is not a position its \<^verbatim>\<open>marketValue\<close> and \<^verbatim>\<open>shares\<close> are
  \<^verbatim>\<open>undefined\<close> and default to \<open>0\<close>.\<close>

definition value_change :: "string \<Rightarrow> real \<Rightarrow> real \<Rightarrow> PositionChange" where
  "value_change s ov nv =
     \<lparr>ctype = Value_change, change_symbol = s, oldValue = Some ov, newValue = Some nv,
      oldShares = None, newShares = None, percentChange = Some (((nv - ov) / ov) * 100)\<rparr>"

definition share_change :: "string \<Rightarrow> real \<Rightarrow> real \<Rightarrow> real \<Rightarrow> real \<Rightarrow> PositionChange" where
  "share_change s os ns ov nv =
     \<lparr>ctype = Share_change, change_symbol = s, oldValue = Some ov, newValue = Some nv,
      oldShares = Some os, newShares = Some ns, percentChange = None\<rparr>"

definition compare_position ::
  "real \<Rightarrow> real \<Rightarrow> string \<Rightarrow> position \<Rightarrow> position lookup \<Rightarrow> PositionChange list" where
  "compare_position percentThreshold valueThreshold s oldPos newPos =
     (let ov = marketValue oldPos;
          nv = (case newPos of Found p \<Rightarrow> marketValue p | _ \<Rightarrow> 0);
          os = shares oldPos;
          ns = (case newPos of Found p \<Rightarrow> shares p | _ \<Rightarrow> 0)
      in (if ov \<noteq> nv \<and> 0 < ov
          then (if isSignificantChange percentThreshold valueThreshold (value_change s ov nv)
                then [value_change s ov nv] else [])
          else [])
         @ (if os \<noteq> ns then [share_change s os ns ov nv] else []))"

definition changed_changes ::
  "real \<Rightarrow> real \<Rightarrow> position dict \<Rightarrow> position dict \<Rightarrow> PositionChange list" where
  "changed_changes percentThreshold valueThreshold oldPositions newPositions =
     concat (map (\<lambda>(s, oldPos). case dict_get position_prop newPositions s of
                                    Missing \<Rightarrow> []
                                  | newPos \<Rightarrow> compare_position percentThreshold valueThreshold
                                                s oldPos newPos)
                 (object_entries oldPositions))"

definition detectChanges ::
  "real \<Rightarrow> real \<Rightarrow> PortfolioData \<Rightarrow> PortfolioData \<Rightarrow> PositionChange list" where
  "detectChanges percentThreshold valueThreshold oldData newData =
     (let oldPositions = flatten_positions oldData;
          newPositions = flatten_positions newData
      in new_changes oldPositions newPositions
         @ closed_changes oldPositions newPositions
         @ changed_changes percentThreshold valueThreshold oldPositions newPositions)"

text \<open>The symbol map that the differencer works on: the own properties of the flattened
  snapshot.\<close>

definition symbol_map :: "PortfolioData \<Rightarrow> string \<Rightarrow> position option" where
  "symbol_map data = map_of (own (flatten_positions data))"

text \<open>The keys under which the positions of the compared categories are filed.\<close>

definition symbols_of :: "PortfolioData \<Rightarrow> string list" where
  "symbols_of data = map position_key (concat (compared_categories (positions data)))"

text \<open>Concrete snapshots used by the closed statements below.\<close>

definition holding :: "string \<Rightarrow> real \<Rightarrow> real \<Rightarrow> position" where
  "holding s q v =
     \<lparr>symbol = s, name = s, shares = q, currentPrice = 0, marketValue = v, costBasis = 0,
      unrealizedGainLoss = 0, account = ''1'', sector = ''Unknown'', currency = ''EUR'',
      isin = None, lastUpdated = None\<rparr>"

definition snapshot_of :: "position list \<Rightarrow> PortfolioData" where
  "snapshot_of ps =
     \<lparr>data_lastUpdated = [], totalNetWorth = 0, accounts = [],
      positions = empty_categories\<lparr>equities := map Entry ps\<rparr>\<rparr>"

section \<open>Token discovery and price cache (\<^verbatim>\<open>SmartCryptoFetcher\<close>)\<close>

record discovery_config =
  enabled :: bool
  scanDepth :: real
  minValueUsd :: real
  maxTransactionsToScan :: real
  cacheExpiryHours :: real

record ChainConfigV2 =
  chain_name :: string
  chainId :: real
  rpcUrl :: string
  explorerUrl :: string
  explorerApiUrl :: string

record TokenInfo =
  info_address :: string
  info_symbol :: string
  info_name :: string
  info_decimals :: real
  info_coingeckoId :: string

record TokenMetadata =
  token_address :: string
  token_symbol :: string
  token_name :: string
  token_decimals :: real
  token_chain :: string
  token_coingeckoId :: "string option"
  token_type :: "string option"
  discoveredAt :: string
  verified :: bool

text \<open>The \<^verbatim>\<open>timestamp\<close> of a cached price is an ISO text; the model keeps what
  \<^verbatim>\<open>new Date(timestamp).getTime()\<close> reads from it: milliseconds since the epoch, or
  \<open>None\<close> when the text is no date (the source then computes with NaN).\<close>

record CachedPrice =
  price :: real
  timestamp :: "int option"
  source :: string

definition cached_prop :: "CachedPrice \<Rightarrow> string \<Rightarrow> bool option" where
  "cached_prop c k =
     (if k = ''price'' then Some (price c \<noteq> 0)
      else if k = ''timestamp'' then Some True
      else if k = ''source'' then Some (source c \<noteq> [])
      else None)"

record CryptoConfigV2 =
  discovery :: discovery_config
  chains :: "ChainConfigV2 dict"
  tokenDatabase :: "TokenMetadata dict"
  priceCache :: "CachedPrice dict"
  knownTokens :: "TokenInfo list dict"

record DiscoveredToken =
  address :: string
  firstSeen :: string
  lastSeen :: string
  transactionCount :: nat

text \<open>One transfer event of the explorer's answer, and the answer itself: the request
  fails (or times out), or it returns a status and a result list.\<close>

record transfer =
  contractAddress :: "string option"
  timeStamp :: string

datatype explorer_reply = Unreachable | Reply string "transfer list"

datatype js_error = TypeError

text \<open>Lines 389-407: the loop over the transfer events. \<open>tokenMap\<close> is a \<^verbatim>\<open>Map\<close>,
  which keeps its keys in insertion order.\<close>

fun scan_transfers ::
  "(string \<Rightarrow> string) \<Rightarrow> (string \<times> DiscoveredToken) list \<Rightarrow> transfer list
     \<Rightarrow> (string \<times> DiscoveredToken) list" where
  "scan_transfers lower tokenMap [] = tokenMap"
| "scan_transfers lower tokenMap (tx # txs) =
     (case contractAddress tx of
        None \<Rightarrow> scan_transfers lower tokenMap txs
      | Some a \<Rightarrow>
          (if lower a = [] then scan_transfers lower tokenMap txs
           else (case map_of tokenMap (lower a) of
                   Some token \<Rightarrow>
                     scan_transfers lower
                       (AList.update (lower a)
                          (token\<lparr>transactionCount := transactionCount token + 1,
                                 lastSeen := timeStamp tx\<rparr>) tokenMap) txs
                 | None \<Rightarrow>
                     scan_transfers lower
                       (AList.update (lower a)
                          \<lparr>address = lower a, firstSeen = timeStamp tx,
                           lastSeen = timeStamp tx, transactionCount = 1\<rparr> tokenMap) txs)))"

text \<open>
  \<^verbatim>\<open>discoverTokens\<close>, lines 356-418. \<open>lower\<close> is \<^verbatim>\<open>toLowerCase\<close>; \<open>explorer\<close> is
  the transaction-history endpoint, asked with the API URL, the wallet address and the
  number of transfers to scan. A chain name without configuration makes line 362 throw.
\<close>

definition discoverTokens ::
  "(string \<Rightarrow> string) \<Rightarrow> (string \<Rightarrow> string \<Rightarrow> real \<Rightarrow> explorer_reply) \<Rightarrow> CryptoConfigV2
     \<Rightarrow> string \<Rightarrow> string \<Rightarrow> js_error + DiscoveredToken list" where
  "discoverTokens lower explorer config walletAddress chainName =
     (if \<not> enabled (discovery config) then Inr []
      else (case dict_get (\<lambda>c k. None) (chains config) chainName of
              Missing \<Rightarrow> Inl TypeError
            | Alien \<Rightarrow> Inr []
            | Found chainConfig \<Rightarrow>
                if explorerApiUrl chainConfig = [] then Inr []
                else (case explorer (explorerApiUrl chainConfig) walletAddress
                             (maxTransactionsToScan (discovery config)) of
                        Unreachable \<Rightarrow> Inr []
                      | Reply status result \<Rightarrow>
                          if status \<noteq> ''1'' then Inr []
                          else Inr (map snd (scan_transfers lower [] result)))))"

text \<open>
  The Token Registry of the specification: the metadata cache \<^verbatim>\<open>tokenDatabase\<close>
  (filled by \<^verbatim>\<open>researchToken\<close>, line 475) and the configured \<^verbatim>\<open>knownTokens\<close>.
  \<open>alreadyKnown\<close> is the test of lines 590-592, by which \<^verbatim>\<open>getAllTokensForWallet\<close>
  skips a discovered token; \<open>in_token_database\<close> matches an address against the
  metadata cache without regard to case.
\<close>

definition known_tokens_of :: "CryptoConfigV2 \<Rightarrow> string \<Rightarrow> TokenInfo list" where
  "known_tokens_of config chainName =
     (case dict_get (\<lambda>c k. None) (knownTokens config) chainName of
        Found kts \<Rightarrow> kts
      | _ \<Rightarrow> [])"

definition alreadyKnown :: "(string \<Rightarrow> string) \<Rightarrow> TokenInfo list \<Rightarrow> DiscoveredToken \<Rightarrow> bool" where
  "alreadyKnown lower kts discovered =
     list_ex (\<lambda>kt. lower (info_address kt) = lower (address discovered)) kts"

definition in_token_database :: "(string \<Rightarrow> string) \<Rightarrow> CryptoConfigV2 \<Rightarrow> string \<Rightarrow> string \<Rightarrow> bool" where
  "in_token_database lower config chainName a =
     list_ex (\<lambda>kv. token_chain (snd kv) = chainName \<and> lower (token_address (snd kv)) = lower a)
       (own (tokenDatabase config))"

text \<open>The lower-casing of ASCII text, for the closed statements below.\<close>

definition ascii_lower :: "string \<Rightarrow> string" where
  "ascii_lower s =
     map (\<lambda>c. if 65 \<le> (of_char c :: int) \<and> (of_char c :: int) \<le> 90
               then char_of ((of_char c :: int) + 32) else c) s"

text \<open>A concrete configuration and explorer for the closed statements below: scenario E
  of the specification, a wallet with three transfers of the registered contract
  \<^verbatim>\<open>0xABC\<close> and one transfer of the unregistered contract \<^verbatim>\<open>0xDEF\<close>.\<close>

definition demo_config :: CryptoConfigV2 where
  "demo_config =
     \<lparr>discovery = \<lparr>enabled = True, scanDepth = 100, minValueUsd = 1,
                    maxTransactionsToScan = 1000, cacheExpiryHours = 1\<rparr>,
      chains = \<lparr>own = [(''ethereum'',
                         \<lparr>chain_name = ''Ethereum'', chainId = 1, rpcUrl = ''https://rpc'',
                          explorerUrl = ''https://scan'', explorerApiUrl = ''https://scan/api''\<rparr>)],
                proto = None\<rparr>,
      tokenDatabase = \<lparr>own = [(''ethereum:0xabc'',
                                \<lparr>token_address = ''0xabc'', token_symbol = ''ABC'',
                                 token_name = ''Abc Token'', token_decimals = 18,
                                 token_chain = ''ethereum'', token_coingeckoId = Some ''abc'',
                                 token_type = Some ''utility'', discoveredAt = ''2025-01-01'',
                                 verified = True\<rparr>)],
                       proto = None\<rparr>,
      priceCache = \<lparr>own = [(''abc'', \<lparr>price = 2, timestamp = Some 1000,
                                       source = ''coingecko''\<rparr>)],
                    proto = None\<rparr>,
      knownTokens = \<lparr>own = [(''ethereum'',
                              [\<lparr>info_address = ''0xABC'', info_symbol = ''ABC'',
                                info_name = ''Abc Token'', info_decimals = 18,
                                info_coingeckoId = ''abc''\<rparr>])],
                     proto = None\<rparr>\<rparr>"

definition demo_transfers :: "transfer list" where
  "demo_transfers =
     [\<lparr>contractAddress = Some ''0xABC'', timeStamp = ''100''\<rparr>,
      \<lparr>contractAddress = Some ''0xDEF'', timeStamp = ''200''\<rparr>,
      \<lparr>contractAddress = Some ''0xabc'', timeStamp = ''300''\<rparr>,
      \<lparr>contractAddress = Some ''0xABC'', timeStamp = ''400''\<rparr>]"

definition demo_explorer :: "string \<Rightarrow> string \<Rightarrow> real \<Rightarrow> explorer_reply" where
  "demo_explorer url walletAddress depth = Reply ''1'' demo_transfers"

text \<open>
  \<^verbatim>\<open>getTokenPrice\<close>, lines 520-556. \<open>now\<close> is \<^verbatim>\<open>Date.now()\<close> of line 526 and
  \<open>storedAt\<close> the clock of line 546, read after the fetch. \<open>fetch\<close> is the pricing
  source asked for a coin id: the request fails, or it answers with the \<^verbatim>\<open>usd\<close>
  quote of the coin, if it has one. The function returns the price and the updated
  configuration; writing the configuration to disk (\<^verbatim>\<open>saveConfig\<close>, which swallows
  its own errors) is not modelled.
\<close>

datatype price_reply = Failed | Quote "real option"

definition cache_key :: "(string \<Rightarrow> string) \<Rightarrow> string \<Rightarrow> string option \<Rightarrow> string" where
  "cache_key lower tokenSymbol coingeckoId =
     (if present coingeckoId then text_of coingeckoId else lower tokenSymbol)"

definition cache_hit :: "int \<Rightarrow> CryptoConfigV2 \<Rightarrow> string \<Rightarrow> CachedPrice option" where
  "cache_hit now config cacheKey =
     (case dict_get cached_prop (priceCache config) cacheKey of
        Found cached \<Rightarrow>
          (case timestamp cached of
             Some t \<Rightarrow>
               if real_of_int (now - t) < cacheExpiryHours (discovery config) * 60 * 60 * 1000
               then Some cached else None
           | None \<Rightarrow> None)
      | _ \<Rightarrow> None)"

definition getTokenPrice ::
  "(string \<Rightarrow> string) \<Rightarrow> int \<Rightarrow> int \<Rightarrow> (string \<Rightarrow> price_reply) \<Rightarrow> CryptoConfigV2 \<Rightarrow> string
     \<Rightarrow> string option \<Rightarrow> real \<times> CryptoConfigV2" where
  "getTokenPrice lower now storedAt fetch config tokenSymbol coingeckoId =
     (let cacheKey = cache_key lower tokenSymbol coingeckoId in
      case cache_hit now config cacheKey of
        Some cached \<Rightarrow> (price cached, config)
      | None \<Rightarrow>
          (let coinId = cache_key lower tokenSymbol coingeckoId in
           case fetch coinId of
             Failed \<Rightarrow> (0, config)
           | Quote usd \<Rightarrow>
               (or_zero usd,
                config\<lparr>priceCache :=
                  dict_set cacheKey
                    \<lparr>price = or_zero usd, timestamp = Some storedAt, source = ''coingecko''\<rparr>
                    (priceCache config)\<rparr>)))"

section \<open>Ledger writer (\<^verbatim>\<open>logToLedger\<close>)\<close>

record LedgerSummary =
  positionsAnalyzed :: "real option"
  recommendationsGenerated :: "real option"
  totalPortfolioValue :: "real option"
  changeFromLastRun :: "real option"
  newPositions :: "real option"
  closedPositions :: "real option"
  significantMovements :: "real option"

record LedgerEntry =
  entry_id :: string
  entry_timestamp :: string
  duration :: real
  phase :: string
  status :: string
  errors :: "string list"
  summary :: LedgerSummary
  entry_notes :: string
  entry_symbol :: "string option"
  entry_change_type :: "string option"
  entry_value :: "real option"
  entry_shares :: "real option"

text \<open>The \<^verbatim>\<open>schema\<close> of a ledger is opaque to the writer; the model keeps its JSON
  text.\<close>

record Ledger =
  entries :: "LedgerEntry list"
  schema :: string

text \<open>The \<^verbatim>\<open>details\<close> argument (\<^verbatim>\<open>any\<close>): the fields the writer reads.\<close>

record ledger_details =
  details_summary :: "LedgerSummary option"
  details_notes :: "string option"
  details_symbol :: "string option"
  details_change_type :: "string option"
  details_value :: "real option"
  details_shares :: "real option"

text \<open>The state of the ledger file: it does not exist, it exists and does not hold a
  ledger document (reading it, or pushing to its \<^verbatim>\<open>entries\<close>, throws), or it holds
  one.\<close>

datatype ledger_file = Absent | Corrupt | Stored Ledger

definition empty_summary :: LedgerSummary where
  "empty_summary =
     \<lparr>positionsAnalyzed = None, recommendationsGenerated = None, totalPortfolioValue = None,
      changeFromLastRun = None, newPositions = None, closedPositions = None,
      significantMovements = None\<rparr>"

text \<open>Lines 379-414: the entry that is appended. \<open>stamp\<close> is the clock formatted for
  the default run id, \<open>isoTime\<close> the clock as ISO text.\<close>

definition new_entry ::
  "string \<Rightarrow> string \<Rightarrow> ledger_details \<Rightarrow> string option \<Rightarrow> string \<Rightarrow> string \<Rightarrow> LedgerEntry" where
  "new_entry entryType st details runId stamp isoTime =
     (let summaryData = (case details_summary details of Some sm \<Rightarrow> sm | None \<Rightarrow> empty_summary);
          newEntry =
            \<lparr>entry_id = (if present runId then text_of runId else ''workflow-'' @ stamp),
             entry_timestamp = isoTime, duration = 0, phase = entryType, status = st, errors = [],
             summary = summaryData,
             entry_notes = (if present (details_notes details) then text_of (details_notes details)
                            else []),
             entry_symbol = None, entry_change_type = None, entry_value = None,
             entry_shares = None\<rparr>
      in if entryType = ''position_change''
         then newEntry\<lparr>entry_symbol := details_symbol details,
                       entry_change_type := details_change_type details,
                       entry_value := details_value details,
                       entry_shares := details_shares details\<rparr>
         else if entryType = ''data_collection''
         then newEntry\<lparr>summary :=
                \<lparr>positionsAnalyzed = Some (or_zero (positionsAnalyzed summaryData)),
                 recommendationsGenerated = Some 0,
                 totalPortfolioValue = Some (or_zero (totalPortfolioValue summaryData)),
                 changeFromLastRun = Some (or_zero (changeFromLastRun summaryData)),
                 newPositions = Some (or_zero (newPositions summaryData)),
                 closedPositions = Some (or_zero (closedPositions summaryData)),
                 significantMovements = Some (or_zero (significantMovements summaryData))\<rparr>\<rparr>
         else newEntry)"

text \<open>
  Lines 416-433. \<open>disk l\<close> is the state of the file after \<^verbatim>\<open>fs.writeJSON\<close> has been
  asked to write \<open>l\<close>: \<open>Stored l\<close> when the write succeeds, whatever a failed write
  leaves behind otherwise. Every exception is caught and logged, so the function always
  returns.
\<close>

definition logToLedger ::
  "(Ledger \<Rightarrow> ledger_file) \<Rightarrow> string \<Rightarrow> string \<Rightarrow> ledger_details \<Rightarrow> string option \<Rightarrow> string
     \<Rightarrow> string \<Rightarrow> ledger_file \<Rightarrow> ledger_file" where
  "logToLedger disk entryType st details runId stamp isoTime ledgerFile =
     (let newEntry = new_entry entryType st details runId stamp isoTime in
      case ledgerFile of
        Absent \<Rightarrow> disk \<lparr>entries = [newEntry], schema = ''{}''\<rparr>
      | Corrupt \<Rightarrow> Corrupt
      | Stored ledger \<Rightarrow> disk (ledger\<lparr>entries := entries ledger @ [newEntry]\<rparr>))"

definition stored_entries :: "ledger_file \<Rightarrow> LedgerEntry list" where
  "stored_entries ledgerFile =
     (case ledgerFile of Stored ledger \<Rightarrow> entries ledger | _ \<Rightarrow> [])"

section \<open>Concrete inputs of the normalizer\<close>

text \<open>
  A host for the closed statements below. \<^verbatim>\<open>String(n)\<close> of a whole number is its decimal
  numeral, and the closed statements render whole numbers only; the case functions are
  the ASCII ones.
\<close>

fun nat_text :: "nat \<Rightarrow> string" where
  "nat_text n =
     (if n < 10 then [''0123456789'' ! n]
      else nat_text (n div 10) @ [''0123456789'' ! (n mod 10)])"

declare nat_text.simps [simp del]

definition whole_number_text :: "real \<Rightarrow> string" where
  "whole_number_text x =
     (if x < 0 then ''-'' @ nat_text (nat \<lfloor>- x\<rfloor>) else nat_text (nat \<lfloor>x\<rfloor>))"

definition ascii_upper :: "string \<Rightarrow> string" where
  "ascii_upper s =
     map (\<lambda>c. if 97 \<le> (of_char c :: int) \<and> (of_char c :: int) \<le> 122
               then char_of ((of_char c :: int) - 32) else c) s"

definition demo_host :: host where
  "demo_host =
     \<lparr>number_text = whole_number_text, toLowerCase = ascii_lower, toUpperCase = ascii_upper\<rparr>"

definition no_patterns :: CategorizationPatterns where
  "no_patterns =
     \<lparr>real_estate_terms = [], funds_terms = [], private_equity_terms = [],
      private_debt_terms = [], crowdfunding_terms = []\<rparr>"

text \<open>An account view named \<^verbatim>\<open>PEA\<close> of type \<^verbatim>\<open>pea\<close> with the given id, IBAN, account
  number and balance, and an ISIN row with the given code, quantity, valuation and
  account id.\<close>

definition account_view :: "real \<Rightarrow> string option \<Rightarrow> string option \<Rightarrow> real \<Rightarrow> raw_account" where
  "account_view i ib n b =
     \<lparr>acc_id = i, iban = ib, acc_number = n, webid = None, original_name = ''PEA'',
      id_type = None, acc_type = Some ''pea'', balance = Some b\<rparr>"

definition isin_row :: "string \<Rightarrow> real \<Rightarrow> real \<Rightarrow> real \<Rightarrow> PowensInvestment" where
  "isin_row c q v a =
     \<lparr>code_type = ''ISIN'', code = c, stock_symbol = None, label = c, quantity = Some q,
      unitvalue = None, valuation = Some v, unitprice = None, diff = None, id_account = a,
      vdate = ''2025-01-01''\<rparr>"

text \<open>Two views that carry the same IBAN, and one row of each.\<close>

definition demo_accounts :: "raw_account list" where
  "demo_accounts =
     [account_view 1 (Some ''FR76'') (Some ''N1'') 1000,
      account_view 2 (Some ''FR76'') (Some ''N2'') 1000]"

definition demo_rows :: PowensInvestmentData where
  "demo_rows =
     \<lparr>investments = [isin_row ''VTI'' 5 500 1, isin_row ''BND'' 3 300 2],
      total_valuation = 800\<rparr>"

section \<open>Properties of the snapshot differencer\<close>

lemma set_object_entries: "set (object_entries d) = set (own d)"
  by (auto simp: object_entries_def)

lemma distinct_object_entries:
  assumes "distinct (map fst (own d))"
  shows "distinct (map fst (object_entries d))"
proof -
  let ?A = "filter (\<lambda>kv. is_array_index (fst kv)) (own d)"
  let ?B = "filter (\<lambda>kv. \<not> is_array_index (fst kv)) (own d)"
  have a: "distinct (map fst ?A)" and b: "distinct (map fst ?B)"
    using assms by (simp_all add: distinct_map_filter)
  have "distinct (map fst (sort_key (\<lambda>kv. index_value (fst kv)) ?A))"
    using a by (simp add: distinct_map)
  moreover have "fst ` set ?A \<inter> fst ` set ?B = {}"
    by auto
  ultimately show ?thesis
    using b by (simp add: object_entries_def)
qed

lemma own_dict_set_distinct:
  "distinct (map fst (own d)) \<Longrightarrow> distinct (map fst (own (dict_set k v d)))"
  by (simp add: dict_set_def distinct_update)

lemma flatten_category_distinct:
  "distinct (map fst (own d)) \<Longrightarrow> distinct (map fst (own (flatten_category d ps)))"
  by (induction d ps rule: flatten_category.induct) (simp_all add: own_dict_set_distinct)

lemma flatten_positions_distinct: "distinct (map fst (own (flatten_positions ps)))"
  by (simp add: flatten_positions_def compared_categories_def flatten_category_distinct
      empty_dict_def)

lemma symbol_map_entries:
  "symbol_map ps s = Some p \<longleftrightarrow> (s, p) \<in> set (object_entries (flatten_positions ps))"
  by (simp add: symbol_map_def set_object_entries flatten_positions_distinct)

lemma dict_get_own:
  "map_of (own d) k = Some v \<Longrightarrow> dict_get prop d k = Found v"
  by (simp add: dict_get_def)

lemma compare_in_changed:
  assumes "(s, po) \<in> set (object_entries olds)"
    and "dict_get position_prop news s = Found pn"
  shows "set (compare_position pt vt s po (Found pn))
           \<subseteq> set (changed_changes pt vt olds news)"
  using assms by (force simp: changed_changes_def)

lemma ctype_new_changes: "c \<in> set (new_changes a b) \<Longrightarrow> ctype c = New"
  by (auto simp: new_changes_def new_change_def split: lookup.splits)

lemma ctype_closed_changes: "c \<in> set (closed_changes a b) \<Longrightarrow> ctype c = Closed"
  by (auto simp: closed_changes_def closed_change_def split: lookup.splits)

lemma compare_position_symbol:
  "c \<in> set (compare_position pt vt s po r) \<Longrightarrow> change_symbol c = s"
  by (auto simp: compare_position_def Let_def value_change_def share_change_def
      split: if_splits)

lemma changed_changes_origin:
  assumes "c \<in> set (changed_changes pt vt olds news)"
  shows "\<exists>po r. (change_symbol c, po) \<in> set (object_entries olds)
              \<and> r = dict_get position_prop news (change_symbol c)
              \<and> r \<noteq> Missing \<and> c \<in> set (compare_position pt vt (change_symbol c) po r)"
proof -
  from assms obtain s po where e: "(s, po) \<in> set (object_entries olds)"
    and c: "c \<in> set (case dict_get position_prop news s of
                        Missing \<Rightarrow> []
                      | newPos \<Rightarrow> compare_position pt vt s po newPos)"
    by (auto simp: changed_changes_def)
  from c have m: "dict_get position_prop news s \<noteq> Missing"
    by (auto split: lookup.splits)
  with c have c': "c \<in> set (compare_position pt vt s po (dict_get position_prop news s))"
    by (cases "dict_get position_prop news s") simp_all
  then have "change_symbol c = s"
    by (rule compare_position_symbol)
  with e m c' show ?thesis by blast
qed

subsection \<open>Quantity changes (C1)\<close>




subsection \<open>Significance of value changes (C3)\<close>

text \<open>
  Claim C3 at its failing input. With a percent threshold of 200 and a currency threshold
  of 1000, the value of X falls from 5000 to 0. The percent delta is -100, below the
  percent threshold; the absolute delta is 5000, above the currency threshold, so the
  claim calls the change significant. The test \<^verbatim>\<open>change.oldValue && change.newValue\<close>
  of line 98 reads the new value \<open>0\<close> as absent, the filter answers false and the change is
  not reported.
\<close>

theorem zero_new_value_not_significant:
  "(1000::real) \<le> \<bar>0 - 5000\<bar>
   \<and> \<not> isSignificantChange 200 1000 (value_change ''X'' 5000 0)
   \<and> detectChanges 200 1000 (snapshot_of [holding ''X'' 5 5000])
        (snapshot_of [holding ''X'' 5 0]) = []"
  by code_simp

text \<open>
  For a symbol of both maps whose old market value is positive and whose new market
  value is different and not zero, the value change is emitted exactly when the absolute
  percent delta reaches the percent threshold or the absolute value delta reaches the
  currency threshold.
\<close>

lemma value_change_significance:
  assumes "symbol_map oldData s = Some po"
    and "symbol_map newData s = Some pn"
    and "0 < marketValue po"
    and "marketValue pn \<noteq> marketValue po"
    and "marketValue pn \<noteq> 0"
  shows "value_change s (marketValue po) (marketValue pn)
           \<in> set (detectChanges pt vt oldData newData)
         \<longleftrightarrow> pt \<le> \<bar>(marketValue pn - marketValue po) / marketValue po * 100\<bar>
             \<or> vt \<le> \<bar>marketValue pn - marketValue po\<bar>"
proof -
  let ?c = "value_change s (marketValue po) (marketValue pn)"
  have e: "(s, po) \<in> set (object_entries (flatten_positions oldData))"
    using assms(1) by (simp add: symbol_map_entries)
  have g: "dict_get position_prop (flatten_positions newData) s = Found pn"
    using assms(2) by (simp add: symbol_map_def dict_get_own)
  have sig: "isSignificantChange pt vt ?c
               \<longleftrightarrow> pt \<le> \<bar>(marketValue pn - marketValue po) / marketValue po * 100\<bar>
                   \<or> vt \<le> \<bar>marketValue pn - marketValue po\<bar>"
    using assms(3,4,5) by (auto simp: isSignificantChange_def value_change_def truthy_def)
  have cmp: "?c \<in> set (compare_position pt vt s po (Found pn)) \<longleftrightarrow> isSignificantChange pt vt ?c"
    using assms(3,4) by (auto simp: compare_position_def Let_def value_change_def share_change_def)
  show ?thesis
  proof
    assume "?c \<in> set (detectChanges pt vt oldData newData)"
    moreover have "ctype ?c = Value_change" by (simp add: value_change_def)
    ultimately have "?c \<in> set (changed_changes pt vt (flatten_positions oldData)
                                  (flatten_positions newData))"
      by (auto simp: detectChanges_def Let_def dest: ctype_new_changes ctype_closed_changes)
    from changed_changes_origin [OF this] obtain po' r
      where "(change_symbol ?c, po') \<in> set (object_entries (flatten_positions oldData))"
        and "r = dict_get position_prop (flatten_positions newData) (change_symbol ?c)"
        and "?c \<in> set (compare_position pt vt (change_symbol ?c) po' r)"
      by blast
    moreover have "change_symbol ?c = s" by (simp add: value_change_def)
    ultimately have "(s, po') \<in> set (object_entries (flatten_positions oldData))"
      and "?c \<in> set (compare_position pt vt s po' (Found pn))"
      using g by simp_all
    moreover from this(1) assms(1) have "po' = po"
      by (simp add: symbol_map_entries [symmetric])
    ultimately show "pt \<le> \<bar>(marketValue pn - marketValue po) / marketValue po * 100\<bar>
             \<or> vt \<le> \<bar>marketValue pn - marketValue po\<bar>"
      using cmp sig by simp
  next
    assume "pt \<le> \<bar>(marketValue pn - marketValue po) / marketValue po * 100\<bar>
             \<or> vt \<le> \<bar>marketValue pn - marketValue po\<bar>"
    with sig cmp have "?c \<in> set (compare_position pt vt s po (Found pn))" by simp
    with compare_in_changed [OF e g] show "?c \<in> set (detectChanges pt vt oldData newData)"
      by (auto simp: detectChanges_def Let_def)
  qed
qed

subsection \<open>Old market value of zero (C4)\<close>

text \<open>
  Claim C4, as amended. For every symbol that both symbol maps hold, whose old market
  value is zero and whose new market value differs, \<^verbatim>\<open>detectChanges\<close> emits no value
  change at all for the symbol: the guard \<^verbatim>\<open>oldValue > 0\<close> of line 321 skips the
  percent delta and the significance test together, whatever the absolute delta is.
\<close>

theorem no_value_change_from_zero:
  assumes "symbol_map oldData s = Some po"
    and "symbol_map newData s = Some pn"
    and "marketValue po = 0"
    and "marketValue pn \<noteq> marketValue po"
  shows "filter (\<lambda>c. ctype c = Value_change \<and> change_symbol c = s)
           (detectChanges pt vt oldData newData) = []"
proof -
  have "\<not> (ctype c = Value_change \<and> change_symbol c = s)"
    if c: "c \<in> set (detectChanges pt vt oldData newData)" for c
  proof
    assume v: "ctype c = Value_change \<and> change_symbol c = s"
    from c v have "c \<in> set (changed_changes pt vt (flatten_positions oldData)
                                (flatten_positions newData))"
      by (auto simp: detectChanges_def Let_def dest: ctype_new_changes ctype_closed_changes)
    from changed_changes_origin [OF this] v obtain po' r
      where e: "(s, po') \<in> set (object_entries (flatten_positions oldData))"
        and m: "c \<in> set (compare_position pt vt s po' r)"
      by auto
    from e assms(1) have "po' = po"
      by (simp add: symbol_map_entries [symmetric])
    with m assms(3) v show False
      by (auto simp: compare_position_def Let_def share_change_def split: if_splits)
  qed
  then show ?thesis
    by (simp add: filter_empty_conv)
qed

text \<open>Witness for C4: a position valued 0 that is now valued 2500.\<close>

theorem no_value_change_from_zero_witness:
  "symbol_map (snapshot_of [holding ''PE1'' 1 0]) ''PE1'' = Some (holding ''PE1'' 1 0)
   \<and> symbol_map (snapshot_of [holding ''PE1'' 1 2500]) ''PE1'' = Some (holding ''PE1'' 1 2500)
   \<and> filter (\<lambda>c. ctype c = Value_change \<and> change_symbol c = ''PE1'')
        (detectChanges 5 1000 (snapshot_of [holding ''PE1'' 1 0])
           (snapshot_of [holding ''PE1'' 1 2500])) = []"
proof -
  have a: "symbol_map (snapshot_of [holding ''PE1'' 1 0]) ''PE1'' = Some (holding ''PE1'' 1 0)"
    by code_simp
  have b: "symbol_map (snapshot_of [holding ''PE1'' 1 2500]) ''PE1''
             = Some (holding ''PE1'' 1 2500)"
    by code_simp
  have c: "marketValue (holding ''PE1'' 1 0) = 0"
    by (simp add: holding_def)
  have d: "marketValue (holding ''PE1'' 1 2500) \<noteq> marketValue (holding ''PE1'' 1 0)"
    by (simp add: holding_def)
  from no_value_change_from_zero [OF a b c d, of 5 1000] a b show ?thesis
    by simp
qed

text \<open>
  Counterexample for C4 as stated: the value of X goes from 0 to 5000, an absolute delta
  above the currency threshold of 1000, and the differencer reports nothing.
\<close>

theorem zero_old_value_change_dropped:
  "(1000::real) \<le> \<bar>5000 - 0\<bar>
   \<and> detectChanges 5 1000 (snapshot_of [holding ''X'' 5 0]) (snapshot_of [holding ''X'' 5 5000])
       = []"
  by code_simp

subsection \<open>Diff completeness (C5)\<close>

text \<open>
  Claim C5 at its failing input. The old snapshot is empty and the new snapshot holds one
  position whose symbol is \<^verbatim>\<open>constructor\<close>. The symbol is in the new symbol map and not
  in the old one, yet \<^verbatim>\<open>!olds[symbol]\<close> of line 287 reads the function that an
  empty object inherits under that name, and no change is emitted.
\<close>

theorem inherited_name_not_opened:
  "symbol_map (snapshot_of []) ''constructor'' = None
   \<and> symbol_map (snapshot_of [holding ''constructor'' 5 900]) ''constructor''
       = Some (holding ''constructor'' 5 900)
   \<and> detectChanges 5 1000 (snapshot_of []) (snapshot_of [holding ''constructor'' 5 900]) = []"
  by code_simp

text \<open>The changes of one symbol come from the one entry the symbol map holds for it.\<close>

lemma filter_concat_keyed:
  assumes "distinct (map fst es)"
    and "\<And>k v c. c \<in> set (f k v) \<Longrightarrow> change_symbol c = k"
  shows "filter (\<lambda>c. change_symbol c = s \<and> Q c) (concat (map (\<lambda>(k, v). f k v) es))
           = (case map_of es s of Some v \<Rightarrow> filter Q (f s v) | None \<Rightarrow> [])"
  using assms(1)
proof (induction es)
  case Nil
  show ?case by simp
next
  case (Cons e es)
  obtain k v where e: "e = (k, v)" by (cases e)
  have other: "filter (\<lambda>c. change_symbol c = s \<and> Q c) (f k v) = []" if "k \<noteq> s"
    using that assms(2) [of _ k v] by (auto simp: filter_empty_conv)
  have same: "filter (\<lambda>c. change_symbol c = s \<and> Q c) (f s v) = filter Q (f s v)"
    using assms(2) [of _ s v] by (auto intro: filter_cong)
  show ?case
  proof (cases "k = s")
    case True
    with Cons.prems e have "map_of es s = None"
      by (auto simp: map_of_eq_None_iff)
    with Cons True e same show ?thesis by simp
  next
    case False
    with Cons e other show ?thesis by simp
  qed
qed

lemma new_changes_symbol:
  "c \<in> set (case dict_get position_prop olds k of Missing \<Rightarrow> [new_change k p] | _ \<Rightarrow> [])
     \<Longrightarrow> change_symbol c = k"
  by (auto simp: new_change_def split: lookup.splits)

lemma closed_changes_symbol:
  "c \<in> set (case dict_get position_prop news k of Missing \<Rightarrow> [closed_change k p] | _ \<Rightarrow> [])
     \<Longrightarrow> change_symbol c = k"
  by (auto simp: closed_change_def split: lookup.splits)

lemma map_of_object_entries:
  "distinct (map fst (own d)) \<Longrightarrow> map_of (object_entries d) = map_of (own d)"
  by (rule map_of_inject_set [THEN iffD2])
     (simp_all add: distinct_object_entries set_object_entries)

lemma compare_position_ctype:
  "c \<in> set (compare_position pt vt s po r)
     \<Longrightarrow> ctype c = Value_change \<or> ctype c = Share_change"
  by (auto simp: compare_position_def Let_def value_change_def share_change_def
      split: if_splits)

lemma ctype_changed_changes:
  "c \<in> set (changed_changes pt vt olds news)
     \<Longrightarrow> ctype c = Value_change \<or> ctype c = Share_change"
  using changed_changes_origin compare_position_ctype by blast

lemma opened_in_new_changes:
  "filter (\<lambda>c. change_symbol c = s \<and> ctype c = New)
     (new_changes (flatten_positions oldData) (flatten_positions newData))
     = (case symbol_map newData s of
          Some p \<Rightarrow> (case dict_get position_prop (flatten_positions oldData) s of
                        Missing \<Rightarrow> [new_change s p] | _ \<Rightarrow> [])
        | None \<Rightarrow> [])"
proof -
  let ?olds = "flatten_positions oldData" and ?news = "flatten_positions newData"
  let ?f = "\<lambda>k p. case dict_get position_prop ?olds k of
                      Missing \<Rightarrow> [new_change k p] | _ \<Rightarrow> []"
  have d: "distinct (map fst (object_entries ?news))"
    by (simp add: distinct_object_entries flatten_positions_distinct)
  have m: "map_of (object_entries ?news) s = symbol_map newData s"
    by (simp add: symbol_map_def map_of_object_entries flatten_positions_distinct)
  have k: "\<And>k v c. c \<in> set (?f k v) \<Longrightarrow> change_symbol c = k"
    by (rule new_changes_symbol)
  have flt: "filter (\<lambda>c. ctype c = New) (?f s p) = ?f s p" for p
    by (simp add: new_change_def split: lookup.splits)
  from filter_concat_keyed [of "object_entries ?news" ?f s "\<lambda>c. ctype c = New", OF d k]
  show ?thesis
    by (simp add: new_changes_def m flt cong: option.case_cong)
qed

lemma closed_in_closed_changes:
  "filter (\<lambda>c. change_symbol c = s \<and> ctype c = Closed)
     (closed_changes (flatten_positions oldData) (flatten_positions newData))
     = (case symbol_map oldData s of
          Some p \<Rightarrow> (case dict_get position_prop (flatten_positions newData) s of
                        Missing \<Rightarrow> [closed_change s p] | _ \<Rightarrow> [])
        | None \<Rightarrow> [])"
proof -
  let ?olds = "flatten_positions oldData" and ?news = "flatten_positions newData"
  let ?f = "\<lambda>k p. case dict_get position_prop ?news k of
                      Missing \<Rightarrow> [closed_change k p] | _ \<Rightarrow> []"
  have d: "distinct (map fst (object_entries ?olds))"
    by (simp add: distinct_object_entries flatten_positions_distinct)
  have m: "map_of (object_entries ?olds) s = symbol_map oldData s"
    by (simp add: symbol_map_def map_of_object_entries flatten_positions_distinct)
  have k: "\<And>k v c. c \<in> set (?f k v) \<Longrightarrow> change_symbol c = k"
    by (rule closed_changes_symbol)
  have flt: "filter (\<lambda>c. ctype c = Closed) (?f s p) = ?f s p" for p
    by (simp add: closed_change_def split: lookup.splits)
  from filter_concat_keyed [of "object_entries ?olds" ?f s "\<lambda>c. ctype c = Closed", OF d k]
  show ?thesis
    by (simp add: closed_changes_def m flt cong: option.case_cong)
qed

lemma opened_changes:
  "filter (\<lambda>c. change_symbol c = s \<and> ctype c = New) (detectChanges pt vt oldData newData)
     = (case symbol_map newData s of
          Some p \<Rightarrow> (case dict_get position_prop (flatten_positions oldData) s of
                        Missing \<Rightarrow> [new_change s p] | _ \<Rightarrow> [])
        | None \<Rightarrow> [])"
proof -
  let ?olds = "flatten_positions oldData" and ?news = "flatten_positions newData"
  have b: "filter (\<lambda>c. change_symbol c = s \<and> ctype c = New) (closed_changes ?olds ?news) = []"
    by (auto simp: filter_empty_conv dest: ctype_closed_changes)
  have c: "filter (\<lambda>c. change_symbol c = s \<and> ctype c = New) (changed_changes pt vt ?olds ?news)
             = []"
    by (auto simp: filter_empty_conv dest: ctype_changed_changes)
  show ?thesis
    by (simp only: detectChanges_def Let_def filter_append opened_in_new_changes b c append_Nil2)
qed

lemma closed_changes_of:
  "filter (\<lambda>c. change_symbol c = s \<and> ctype c = Closed) (detectChanges pt vt oldData newData)
     = (case symbol_map oldData s of
          Some p \<Rightarrow> (case dict_get position_prop (flatten_positions newData) s of
                        Missing \<Rightarrow> [closed_change s p] | _ \<Rightarrow> [])
        | None \<Rightarrow> [])"
proof -
  let ?olds = "flatten_positions oldData" and ?news = "flatten_positions newData"
  have b: "filter (\<lambda>c. change_symbol c = s \<and> ctype c = Closed) (new_changes ?olds ?news) = []"
    by (auto simp: filter_empty_conv dest: ctype_new_changes)
  have c: "filter (\<lambda>c. change_symbol c = s \<and> ctype c = Closed)
             (changed_changes pt vt ?olds ?news) = []"
    by (auto simp: filter_empty_conv dest: ctype_changed_changes)
  show ?thesis
    by (simp only: detectChanges_def Let_def filter_append closed_in_closed_changes b c
        append_Nil append_Nil2)
qed

lemma flatten_category_proto:
  "proto d = None \<Longrightarrow> ''__proto__'' \<notin> position_key ` set ps
     \<Longrightarrow> proto (flatten_category d ps) = None"
  by (induction d ps rule: flatten_category.induct) (auto simp: dict_set_def)

lemma foldl_flatten_category_proto:
  "proto d = None \<Longrightarrow> ''__proto__'' \<notin> position_key ` set (concat pss)
     \<Longrightarrow> proto (foldl flatten_category d pss) = None"
proof (induction pss arbitrary: d)
  case Nil
  then show ?case by simp
next
  case (Cons ps pss)
  from Cons.prems have "proto (flatten_category d ps) = None"
    by (intro flatten_category_proto) auto
  moreover from Cons.prems have "''__proto__'' \<notin> position_key ` set (concat pss)"
    by auto
  ultimately show ?case
    using Cons.IH by simp
qed

lemma flatten_positions_proto:
  assumes "''__proto__'' \<notin> set (symbols_of data)"
  shows "proto (flatten_positions data) = None"
  using assms foldl_flatten_category_proto [of empty_dict "compared_categories (positions data)"]
  by (simp add: flatten_positions_def symbols_of_def empty_dict_def)

lemma flatten_category_no_own_proto:
  "map_of (own d) ''__proto__'' = None
     \<Longrightarrow> map_of (own (flatten_category d ps)) ''__proto__'' = None"
  by (induction d ps rule: flatten_category.induct) (auto simp: dict_set_def update_conv')

lemma symbol_map_no_proto: "symbol_map data ''__proto__'' = None"
proof -
  have "map_of (own (foldl flatten_category d pss)) ''__proto__'' = None"
    if "map_of (own d) ''__proto__'' = None" for d pss
    using that by (induction pss arbitrary: d) (auto simp: flatten_category_no_own_proto)
  from this [of empty_dict] show ?thesis
    by (simp add: symbol_map_def flatten_positions_def empty_dict_def)
qed

lemma lookup_plain:
  assumes "''__proto__'' \<notin> set (symbols_of data)" and "s \<notin> set object_prototype_names"
    and "s \<noteq> ''__proto__''"
  shows "dict_get position_prop (flatten_positions data) s
           = (case symbol_map data s of Some p \<Rightarrow> Found p | None \<Rightarrow> Missing)"
  using assms flatten_positions_proto [OF assms(1)]
  by (simp add: dict_get_def symbol_map_def split: option.splits)

text \<open>
  Diff completeness for the symbols that no empty object inherits, between snapshots in
  which no position is filed under \<^verbatim>\<open>__proto__\<close>: exactly one \<^verbatim>\<open>new\<close> change for a
  symbol of the new map that the old map lacks, exactly one \<^verbatim>\<open>closed\<close> change for a
  symbol of the old map that the new map lacks, and none otherwise.
\<close>

lemma diff_completeness:
  assumes "''__proto__'' \<notin> set (symbols_of oldData)"
    and "''__proto__'' \<notin> set (symbols_of newData)"
    and "s \<notin> set object_prototype_names"
  shows "filter (\<lambda>c. change_symbol c = s \<and> ctype c = New)
           (detectChanges pt vt oldData newData)
           = (case (symbol_map newData s, symbol_map oldData s) of
                (Some p, None) \<Rightarrow> [new_change s p]
              | _ \<Rightarrow> [])
         \<and> filter (\<lambda>c. change_symbol c = s \<and> ctype c = Closed)
             (detectChanges pt vt oldData newData)
           = (case (symbol_map oldData s, symbol_map newData s) of
                (Some p, None) \<Rightarrow> [closed_change s p]
              | _ \<Rightarrow> [])"
proof (cases "s = ''__proto__''")
  case True
  then show ?thesis
    by (simp add: opened_changes closed_changes_of symbol_map_no_proto)
next
  case False
  with assms show ?thesis
    by (simp add: opened_changes closed_changes_of lookup_plain split: option.splits)
qed

text \<open>No symbol receives both a \<^verbatim>\<open>new\<close> and a \<^verbatim>\<open>closed\<close> change, for any pair of
  snapshots.\<close>

lemma never_opened_and_closed:
  "filter (\<lambda>c. change_symbol c = s \<and> ctype c = New) (detectChanges pt vt oldData newData) = []
   \<or> filter (\<lambda>c. change_symbol c = s \<and> ctype c = Closed) (detectChanges pt vt oldData newData)
      = []"
proof (cases "symbol_map oldData s")
  case None
  then show ?thesis
    by (simp add: closed_changes_of)
next
  case (Some p)
  then have "dict_get position_prop (flatten_positions oldData) s = Found p"
    by (simp add: symbol_map_def dict_get_own)
  then show ?thesis
    by (simp add: opened_changes split: option.splits)
qed

section \<open>Properties of the position normalizer\<close>

lemma dedup_accounts_snoc:
  "dedup_accounts h (xs @ [a]) = add_account h (dedup_accounts h xs) a"
  by (simp add: dedup_accounts_def)

lemma dedup_accounts_seen:
  "seenAccounts (dedup_accounts h xs) = map (account_key h) (uniqueAccounts (dedup_accounts h xs))
   \<and> uniqueAccountIds (dedup_accounts h xs) = map acc_id (uniqueAccounts (dedup_accounts h xs))
   \<and> set (seenAccounts (dedup_accounts h xs)) = account_key h ` set xs"
proof (induction xs rule: rev_induct)
  case Nil
  show ?case by (simp add: dedup_accounts_def)
next
  case (snoc a xs)
  then show ?case
    by (auto simp: dedup_accounts_snoc add_account_def)
qed

lemma dedup_accounts_first:
  "filter (\<lambda>b. account_key h b = k) (uniqueAccounts (dedup_accounts h xs))
     = take 1 (filter (\<lambda>b. account_key h b = k) xs)"
proof (induction xs rule: rev_induct)
  case Nil
  show ?case by (simp add: dedup_accounts_def)
next
  case (snoc a xs)
  let ?st = "dedup_accounts h xs"
  have seen: "set (seenAccounts ?st) = account_key h ` set xs"
    using dedup_accounts_seen [of h xs] by blast
  show ?case
  proof (cases "account_key h a \<in> set (seenAccounts ?st)")
    case True
    then have u: "uniqueAccounts (dedup_accounts h (xs @ [a])) = uniqueAccounts ?st"
      by (simp add: dedup_accounts_snoc add_account_def)
    show ?thesis
    proof (cases "account_key h a = k")
      case k: True
      from True seen k have "k \<in> account_key h ` set xs"
        by simp
      then have "\<exists>x\<in>set xs. account_key h x = k"
        by blast
      then have "filter (\<lambda>b. account_key h b = k) xs \<noteq> []"
        by (simp add: filter_empty_conv)
      then show ?thesis
        using u snoc.IH k by (cases "filter (\<lambda>b. account_key h b = k) xs") simp_all
    next
      case False
      then show ?thesis using u snoc.IH by simp
    qed
  next
    case False
    then have u: "uniqueAccounts (dedup_accounts h (xs @ [a])) = uniqueAccounts ?st @ [a]"
      by (simp add: dedup_accounts_snoc add_account_def)
    show ?thesis
    proof (cases "account_key h a = k")
      case k: True
      from False seen k have "k \<notin> account_key h ` set xs"
        by simp
      then have "\<forall>x\<in>set xs. account_key h x \<noteq> k"
        by blast
      then have "filter (\<lambda>b. account_key h b = k) xs = []"
        by (simp add: filter_empty_conv)
      then show ?thesis
        using u snoc.IH k by simp
    next
      case False
      then show ?thesis using u snoc.IH by simp
    qed
  qed
qed

lemma collect_investments_filter:
  "collect_investments h ids rows
     = map (to_position h) (filter (\<lambda>r. id_account r \<in> set ids \<and> eligible r) rows)"
  by (induction rows) simp_all

lemma collect_investments_restrict:
  assumes "\<And>r. id_account r \<in> set ids \<Longrightarrow> eligible r \<Longrightarrow> P r"
  shows "collect_investments h ids (filter P rows) = collect_investments h ids rows"
proof -
  have "filter (\<lambda>r. id_account r \<in> set ids \<and> eligible r) (filter P rows)
          = filter (\<lambda>r. id_account r \<in> set ids \<and> eligible r) rows"
    using assms by (induction rows) auto
  then show ?thesis
    by (simp only: collect_investments_filter)
qed

lemma transform_restrict:
  assumes "\<And>r. id_account r \<in> set (uniqueAccountIds (dedup_accounts h accountsData))
               \<Longrightarrow> eligible r \<Longrightarrow> P r"
  shows "transformToInternalFormat h patterns ts accountsData
           (d\<lparr>investments := filter P (investments d)\<rparr>)
         = transformToInternalFormat h patterns ts accountsData d"
  using collect_investments_restrict [of "uniqueAccountIds (dedup_accounts h accountsData)" P h, OF assms]
  by (simp add: transformToInternalFormat_def)

lemma consolidate_snoc:
  "consolidate (xs @ [x]) = consolidate_step (consolidate xs) x"
  by (simp add: consolidate_def)

lemma set_update_subset: "set (AList.update k v al) \<subseteq> insert (k, v) (set al)"
  by (induction al) auto

lemma own_dict_set:
  "map_of (own (dict_set k v d)) s
     = (if s = k \<and> (k \<noteq> ''__proto__'' \<or> map_of (own d) k \<noteq> None) then Some v
        else map_of (own d) s)"
  by (auto simp: dict_set_def update_conv')

lemma proto_dict_set:
  "proto (dict_set k v d)
     = (if k = ''__proto__'' \<and> map_of (own d) k = None then Some v else proto d)"
  by (auto simp: dict_set_def)

lemma consolidate_step_shape:
  "\<exists>v. consolidate_step d x = dict_set (symbol x) v d"
  by (auto simp: consolidate_step_def split: lookup.splits entry.splits)

lemma consolidate_step_other:
  "symbol x \<noteq> s \<Longrightarrow> map_of (own (consolidate_step d x)) s = map_of (own d) s"
  using consolidate_step_shape [of d x] by (auto simp: own_dict_set)

lemma consolidate_no_own_proto:
  "map_of (own (consolidate rows)) ''__proto__'' = None"
proof (induction rows rule: rev_induct)
  case Nil
  show ?case by (simp add: consolidate_def empty_dict_def)
next
  case (snoc x xs)
  from consolidate_step_shape [of "consolidate xs" x] snoc show ?case
    by (auto simp: consolidate_snoc own_dict_set)
qed

lemma consolidate_proto:
  "(proto (consolidate rows) = None \<or> (\<exists>a. proto (consolidate rows) = Some (Garbage a)))
   \<and> (proto (consolidate rows) \<noteq> None \<longrightarrow> ''__proto__'' \<in> symbol ` set rows)"
proof (induction rows rule: rev_induct)
  case Nil
  show ?case by (simp add: consolidate_def empty_dict_def)
next
  case (snoc x xs)
  let ?d = "consolidate xs"
  show ?case
  proof (cases "symbol x = ''__proto__''")
    case True
    have n: "map_of (own ?d) (symbol x) = None"
      using True by (simp add: consolidate_no_own_proto)
    from snoc have "proto ?d = None \<or> (\<exists>a. proto ?d = Some (Garbage a))"
      by blast
    then have "\<exists>b. proto (consolidate_step ?d x) = Some (Garbage b)"
    proof
      assume p: "proto ?d = None"
      with n True have "dict_get entry_prop ?d (symbol x) = Alien"
        by (simp add: dict_get_def)
      then have "consolidate_step ?d x
                   = dict_set (symbol x) (Garbage (''undefined,'' @ account x)) ?d"
        by (simp add: consolidate_step_def)
      with n True show ?thesis
        by (simp add: proto_dict_set)
    next
      assume "\<exists>a. proto ?d = Some (Garbage a)"
      then obtain a where p: "proto ?d = Some (Garbage a)" ..
      with n True have "dict_get entry_prop ?d (symbol x) = Found (Garbage a)"
        by (simp add: dict_get_def)
      then have "consolidate_step ?d x
                   = dict_set (symbol x) (Garbage (a @ '','' @ account x)) ?d"
        by (simp add: consolidate_step_def)
      with n True show ?thesis
        by (simp add: proto_dict_set)
    qed
    with True show ?thesis
      by (auto simp: consolidate_snoc)
  next
    case False
    from consolidate_step_shape [of ?d x] obtain v
      where "consolidate_step ?d x = dict_set (symbol x) v ?d" by blast
    with False snoc show ?thesis
      by (auto simp: consolidate_snoc proto_dict_set)
  qed
qed

lemma dict_get_regular:
  assumes "s \<notin> set object_prototype_names" and "s \<noteq> ''__proto__''"
    and "s = ''account'' \<longrightarrow> proto d = None"
    and "proto d = None \<or> (\<exists>a. proto d = Some (Garbage a))"
  shows "dict_get entry_prop d s
           = (case map_of (own d) s of Some v \<Rightarrow> Found v | None \<Rightarrow> Missing)"
  using assms by (auto simp: dict_get_def split: option.splits if_splits)

lemma consolidate_group:
  assumes "s \<notin> set object_prototype_names" and "s \<noteq> ''__proto__''"
    and "s \<noteq> ''account'' \<or> ''__proto__'' \<notin> symbol ` set rows"
  shows "map_of (own (consolidate rows)) s
           = (case filter (\<lambda>r. symbol r = s) rows of
                [] \<Rightarrow> None
              | r # rs \<Rightarrow> Some (Entry (foldl merge_position r rs)))"
  using assms(3)
proof (induction rows rule: rev_induct)
  case Nil
  show ?case by (simp add: consolidate_def empty_dict_def)
next
  case (snoc x xs)
  let ?d = "consolidate xs"
  from snoc.prems have p: "s \<noteq> ''account'' \<or> ''__proto__'' \<notin> symbol ` set xs"
    by auto
  note ih = snoc.IH [OF p]
  show ?case
  proof (cases "symbol x = s")
    case False
    with ih show ?thesis
      by (simp add: consolidate_snoc consolidate_step_other)
  next
    case True
    have "s = ''account'' \<longrightarrow> proto ?d = None"
      using p consolidate_proto [of xs] by blast
    then have g: "dict_get entry_prop ?d s
                    = (case map_of (own ?d) s of Some v \<Rightarrow> Found v | None \<Rightarrow> Missing)"
      using assms(1,2) consolidate_proto [of xs] by (intro dict_get_regular) blast+
    show ?thesis
    proof (cases "filter (\<lambda>r. symbol r = s) xs")
      case Nil
      with ih g True assms(2) show ?thesis
        by (simp add: consolidate_snoc consolidate_step_def own_dict_set)
    next
      case (Cons r rs)
      with ih g True assms(2) show ?thesis
        by (simp add: consolidate_snoc consolidate_step_def own_dict_set)
    qed
  qed
qed

lemma foldl_merge_totals:
  "shares (foldl merge_position r rs) = shares r + sum_list (map shares rs)
   \<and> marketValue (foldl merge_position r rs) = marketValue r + sum_list (map marketValue rs)
   \<and> costBasis (foldl merge_position r rs) = costBasis r + sum_list (map costBasis rs)
   \<and> symbol (foldl merge_position r rs) = symbol r
   \<and> name (foldl merge_position r rs) = name r
   \<and> isin (foldl merge_position r rs) = isin r"
  by (induction rs rule: rev_induct) (simp_all add: merge_position_def Let_def)

lemma foldl_merge_price:
  assumes "rs \<noteq> []"
  shows "currentPrice (foldl merge_position r rs)
           = (if 0 < shares r + sum_list (map shares rs)
              then (marketValue r + sum_list (map marketValue rs))
                     / (shares r + sum_list (map shares rs))
              else 0)"
proof -
  from assms obtain ys y where rs: "rs = ys @ [y]"
    by (cases rs rule: rev_cases) auto
  show ?thesis
    using foldl_merge_totals [of r ys]
    by (simp add: rs merge_position_def Let_def add.assoc)
qed

lemma set_object_values: "set (object_values d) = snd ` set (own d)"
  by (auto simp: object_values_def object_entries_def)

lemma startsWith_append: "startsWith (t @ s) t"
  by (induction t) simp_all

lemma ends_with_append: "ends_with (a @ t) t"
  by (simp add: ends_with_def startsWith_append)

lemma dict_get_Found:
  "dict_get prop d k = Found v \<Longrightarrow> v \<in> snd ` set (own d) \<or> proto d = Some v"
  by (auto simp: dict_get_def split: option.splits if_splits dest!: map_of_SomeD intro: rev_image_eqI)

lemma dict_set_values:
  "e \<in> snd ` set (own (dict_set k v d)) \<or> proto (dict_set k v d) = Some e
     \<Longrightarrow> e = v \<or> e \<in> snd ` set (own d) \<or> proto d = Some e"
  using set_update_subset [of k v "own d"]
  by (auto simp: dict_set_def split: if_splits)

lemma consolidate_origin:
  assumes "e \<in> snd ` set (own (consolidate rows)) \<or> proto (consolidate rows) = Some e"
  shows "case e of
           Entry p \<Rightarrow> \<exists>r\<in>set rows. symbol p = symbol r \<and> name p = name r \<and> isin p = isin r
         | Garbage a \<Rightarrow> \<exists>r\<in>set rows. ends_with a ('','' @ account r)"
  using assms
proof (induction rows arbitrary: e rule: rev_induct)
  case Nil
  then show ?case by (simp add: consolidate_def empty_dict_def)
next
  case (snoc x xs)
  let ?d = "consolidate xs"
  let ?G = "\<lambda>rows e. case e of
           Entry p \<Rightarrow> \<exists>r\<in>set rows. symbol p = symbol r \<and> name p = name r \<and> isin p = isin r
         | Garbage a \<Rightarrow> \<exists>r\<in>set rows. ends_with a ('','' @ account r)"
  have mono: "?G xs e' \<Longrightarrow> ?G (xs @ [x]) e'" for e'
    by (cases e') auto
  have old: "?G (xs @ [x]) e'" if "e' \<in> snd ` set (own ?d) \<or> proto ?d = Some e'" for e'
    using snoc.IH [OF that] by (rule mono)
  have merged: "symbol (merge_position q x) = symbol q \<and> name (merge_position q x) = name q
                  \<and> isin (merge_position q x) = isin q" for q
    by (simp add: merge_position_def Let_def)
  from snoc.prems
  have e: "e \<in> snd ` set (own (consolidate_step ?d x)) \<or> proto (consolidate_step ?d x) = Some e"
    by (simp add: consolidate_snoc)
  show ?case
  proof (cases "dict_get entry_prop ?d (symbol x)")
    case (Found existing)
    from dict_get_Found [OF this] have g: "?G xs existing"
      by (rule snoc.IH)
    show ?thesis
    proof (cases existing)
      case (Entry q)
      with Found have "consolidate_step ?d x
                         = dict_set (symbol x) (Entry (merge_position q x)) ?d"
        by (simp add: consolidate_step_def)
      with e dict_set_values [of e "symbol x" "Entry (merge_position q x)" ?d]
      have "e = Entry (merge_position q x) \<or> e \<in> snd ` set (own ?d) \<or> proto ?d = Some e"
        by simp
      then show ?thesis
      proof
        assume "e = Entry (merge_position q x)"
        with g Entry merged [of q] show ?thesis by auto
      next
        assume "e \<in> snd ` set (own ?d) \<or> proto ?d = Some e"
        then show ?thesis by (rule old)
      qed
    next
      case (Garbage a)
      with Found have "consolidate_step ?d x
                         = dict_set (symbol x) (Garbage (a @ '','' @ account x)) ?d"
        by (simp add: consolidate_step_def)
      with e dict_set_values [of e "symbol x" "Garbage (a @ '','' @ account x)" ?d]
      have "e = Garbage (a @ '','' @ account x) \<or> e \<in> snd ` set (own ?d) \<or> proto ?d = Some e"
        by simp
      then show ?thesis
      proof
        assume "e = Garbage (a @ '','' @ account x)"
        then show ?thesis
          using ends_with_append [of a "'','' @ account x"] by simp
      next
        assume "e \<in> snd ` set (own ?d) \<or> proto ?d = Some e"
        then show ?thesis by (rule old)
      qed
    qed
  next
    case Alien
    then have "consolidate_step ?d x
                 = dict_set (symbol x) (Garbage (''undefined,'' @ account x)) ?d"
      by (simp add: consolidate_step_def)
    with e dict_set_values [of e "symbol x" "Garbage (''undefined,'' @ account x)" ?d]
    have "e = Garbage (''undefined,'' @ account x) \<or> e \<in> snd ` set (own ?d) \<or> proto ?d = Some e"
      by simp
    then show ?thesis
    proof
      assume "e = Garbage (''undefined,'' @ account x)"
      then show ?thesis
        using ends_with_append [of "''undefined''" "'','' @ account x"] by simp
    next
      assume "e \<in> snd ` set (own ?d) \<or> proto ?d = Some e"
      then show ?thesis by (rule old)
    qed
  next
    case Missing
    then have "consolidate_step ?d x = dict_set (symbol x) (Entry x) ?d"
      by (simp add: consolidate_step_def)
    with e dict_set_values [of e "symbol x" "Entry x" ?d]
    have "e = Entry x \<or> e \<in> snd ` set (own ?d) \<or> proto ?d = Some e"
      by simp
    then show ?thesis
    proof
      assume "e = Entry x"
      then show ?thesis by simp
    next
      assume "e \<in> snd ` set (own ?d) \<or> proto ?d = Some e"
      then show ?thesis by (rule old)
    qed
  qed
qed

lemma remove_exact_duplicates_subset:
  "set (remove_exact_duplicates h seen xs) \<subseteq> set xs"
  by (induction xs arbitrary: seen) auto

lemma categorize_positions:
  "set (all_positions (categorize h patterns c e)) = insert e (set (all_positions c))"
  by (auto simp: categorize_def all_positions_def Let_def)

lemma foldl_categorize_positions:
  "set (all_positions (foldl (categorize h patterns) c es)) = set (all_positions c) \<union> set es"
  by (induction es arbitrary: c) (auto simp: categorize_positions)

lemma all_positions_empty: "all_positions empty_categories = []"
  by (simp add: all_positions_def empty_categories_def)

lemma transform_origin:
  assumes "e \<in> set (all_positions (positions
                 (transformToInternalFormat h patterns ts accountsData d)))"
  shows "\<exists>item\<in>set (investments d).
           originates_from h e item
           \<and> id_account item \<in> set (uniqueAccountIds (dedup_accounts h accountsData))"
proof -
  let ?ids = "uniqueAccountIds (dedup_accounts h accountsData)"
  let ?all = "collect_investments h ?ids (investments d)"
  let ?rows = "remove_exact_duplicates h [] ?all"
  from assms have "e \<in> snd ` set (own (consolidate ?rows))"
    by (simp add: transformToInternalFormat_def Let_def foldl_categorize_positions
        set_object_values all_positions_empty)
  then have g: "case e of
      Entry p \<Rightarrow> \<exists>r\<in>set ?rows. symbol p = symbol r \<and> name p = name r \<and> isin p = isin r
    | Garbage a \<Rightarrow> \<exists>r\<in>set ?rows. ends_with a ('','' @ account r)"
    by (intro consolidate_origin) simp
  have rows: "\<exists>item\<in>set (investments d).
                eligible item \<and> id_account item \<in> set ?ids \<and> r = to_position h item"
    if "r \<in> set ?rows" for r
  proof -
    from that remove_exact_duplicates_subset [of h "[]" ?all] have "r \<in> set ?all"
      by blast
    then show ?thesis
      by (auto simp: collect_investments_filter)
  qed
  show ?thesis
  proof (cases e)
    case (Entry p)
    with g obtain r where r: "r \<in> set ?rows"
      and "symbol p = symbol r \<and> name p = name r \<and> isin p = isin r"
      by auto
    with rows [OF r] Entry show ?thesis
      by (auto simp: originates_from_def to_position_def)
  next
    case (Garbage a)
    with g obtain r where r: "r \<in> set ?rows" and "ends_with a ('','' @ account r)"
      by auto
    with rows [OF r] Garbage show ?thesis
      by (auto simp: originates_from_def to_position_def)
  qed
qed

subsection \<open>Consolidation of rows that share a symbol (C2)\<close>

text \<open>
  Claim C2, as amended. Let \<open>lot\<close> be the rows of one symbol among the surviving rows
  (the input of the consolidation loop), at least two of them. The consolidated position
  has the summed quantity, the summed market value and the summed cost basis of the lot.
  Its unit price is recomputed as total market value over total quantity when the total
  quantity is strictly positive, and is \<open>0\<close> otherwise (the guard of line 536); it is
  never taken from a row. The statement leaves out the symbols that name a property an
  empty object inherits (see \<open>consolidate_step\<close>), and the symbol \<^verbatim>\<open>account\<close> in a
  batch that also holds a row whose symbol is \<^verbatim>\<open>__proto__\<close>.
\<close>

theorem consolidated_totals:
  assumes "lot = filter (\<lambda>r. symbol r = s) uniqueInvestments"
    and "2 \<le> length lot"
    and "s \<notin> set object_prototype_names" and "s \<noteq> ''__proto__''"
    and "s \<noteq> ''account'' \<or> ''__proto__'' \<notin> symbol ` set uniqueInvestments"
  shows "\<exists>p. map_of (own (consolidate uniqueInvestments)) s = Some (Entry p)
           \<and> Entry p \<in> set (object_values (consolidate uniqueInvestments))
           \<and> shares p = sum_list (map shares lot)
           \<and> marketValue p = sum_list (map marketValue lot)
           \<and> costBasis p = sum_list (map costBasis lot)
           \<and> currentPrice p
               = (if 0 < sum_list (map shares lot)
                  then sum_list (map marketValue lot) / sum_list (map shares lot)
                  else 0)"
proof -
  from assms(2) obtain r rs where g: "lot = r # rs" and ne: "rs \<noteq> []"
    by (cases lot; cases "tl lot") auto
  let ?p = "foldl merge_position r rs"
  have m: "map_of (own (consolidate uniqueInvestments)) s = Some (Entry ?p)"
    using consolidate_group [OF assms(3,4,5)] g assms(1) by simp
  then have "(s, Entry ?p) \<in> set (own (consolidate uniqueInvestments))"
    by (rule map_of_SomeD)
  then have v: "Entry ?p \<in> set (object_values (consolidate uniqueInvestments))"
    by (force simp: set_object_values)
  from m v foldl_merge_totals [of r rs] foldl_merge_price [OF ne, of r] show ?thesis
    by (simp add: g)
qed

text \<open>Witness for C2: scenario C of the specification, two VTI rows of 5 and 3 shares
  worth 500 and 300.\<close>

theorem consolidated_totals_witness:
  "2 \<le> length (filter (\<lambda>r. symbol r = ''VTI'') [holding ''VTI'' 5 500, holding ''VTI'' 3 300])
   \<and> (\<exists>p. Entry p \<in> set (object_values (consolidate [holding ''VTI'' 5 500, holding ''VTI'' 3 300]))
          \<and> shares p = 8 \<and> marketValue p = 800 \<and> costBasis p = 0 \<and> currentPrice p = 100)"
proof -
  let ?rows = "[holding ''VTI'' 5 500, holding ''VTI'' 3 300]"
  have n: "2 \<le> length (filter (\<lambda>r. symbol r = ''VTI'') ?rows)"
    by (simp add: holding_def)
  have a: "''VTI'' \<notin> set object_prototype_names" "''VTI'' \<noteq> ''__proto__''"
    "''VTI'' \<noteq> ''account'' \<or> ''__proto__'' \<notin> symbol ` set ?rows"
    by (simp_all add: object_prototype_names_def)
  from consolidated_totals [OF refl n a] obtain p
    where "Entry p \<in> set (object_values (consolidate ?rows))"
      and "shares p = sum_list (map shares (filter (\<lambda>r. symbol r = ''VTI'') ?rows))"
      and "marketValue p = sum_list (map marketValue (filter (\<lambda>r. symbol r = ''VTI'') ?rows))"
      and "costBasis p = sum_list (map costBasis (filter (\<lambda>r. symbol r = ''VTI'') ?rows))"
      and "currentPrice p
             = (if 0 < sum_list (map shares (filter (\<lambda>r. symbol r = ''VTI'') ?rows))
                then sum_list (map marketValue (filter (\<lambda>r. symbol r = ''VTI'') ?rows))
                       / sum_list (map shares (filter (\<lambda>r. symbol r = ''VTI'') ?rows))
                else 0)"
    by blast
  then have "Entry p \<in> set (object_values (consolidate ?rows))
             \<and> shares p = 8 \<and> marketValue p = 800 \<and> costBasis p = 0 \<and> currentPrice p = 100"
    by (simp add: holding_def)
  with n show ?thesis by blast
qed

text \<open>
  Counterexample for C2 as stated. Two rows of a fund whose quantity the provider does not
  report (read as \<open>0\<close>) consolidate to market value 800 at unit price \<open>0\<close>, which is no
  ratio of 800 to the total quantity; and two rows whose quantities sum to \<open>-3\<close>
  consolidate to unit price \<open>0\<close>, not to \<open>800 / -3\<close>.
\<close>

theorem unit_price_zero_when_quantity_not_positive:
  "(case map_of (own (consolidate [holding ''EUROFUND'' 0 500, holding ''EUROFUND'' 0 300]))
           ''EUROFUND'' of
      Some (Entry p) \<Rightarrow> shares p = 0 \<and> marketValue p = 800 \<and> currentPrice p = 0
                          \<and> currentPrice p * shares p \<noteq> marketValue p
    | _ \<Rightarrow> False)
   \<and> (case map_of (own (consolidate [holding ''SHORT'' 2 500, holding ''SHORT'' (- 5) 300]))
             ''SHORT'' of
        Some (Entry p) \<Rightarrow> shares p = - 3 \<and> marketValue p = 800 \<and> currentPrice p = 0
                            \<and> currentPrice p \<noteq> marketValue p / shares p
      | _ \<Rightarrow> False)"
  by code_simp

subsection \<open>Account deduplication (C6)\<close>

lemma foldl_add_sum_list:
  "foldl (\<lambda>total a. total + f a) z xs = z + sum_list (map f xs)" for z :: real
  by (induction xs arbitrary: z) simp_all

text \<open>
  Claim C6, as amended. Every account has one key: its IBAN when present, else its
  account number when present, else its web id when present, else its display name and
  account type joined by a dash. First match wins on that key: for every key \<open>k\<close>, the
  kept accounts with key \<open>k\<close> are exactly the first input account with key \<open>k\<close>. The net
  worth counts the balance of every kept account once. A raw instrument row whose owning
  account is not among the kept accounts is excluded: every element of the snapshot
  originates from a row of a kept account, and deleting all other rows from the input
  changes nothing in the result. So value reported through two account views with equal
  keys is counted once.
\<close>

theorem account_dedup_first_match:
  "(iban a = Some i \<and> i \<noteq> [] \<longrightarrow> account_key h a = i)
   \<and> (\<not> present (iban a) \<and> acc_number a = Some n \<and> n \<noteq> [] \<longrightarrow> account_key h a = n)
   \<and> (\<not> present (iban a) \<and> \<not> present (acc_number a) \<and> webid a = Some w \<and> w \<noteq> []
        \<longrightarrow> account_key h a = w)
   \<and> (\<not> present (iban a) \<and> \<not> present (acc_number a) \<and> \<not> present (webid a)
        \<longrightarrow> account_key h a
            = original_name a @ ''-''
              @ (if or_zero (id_type a) \<noteq> 0 then number_text h (or_zero (id_type a))
                 else text_of (acc_type a)))
   \<and> filter (\<lambda>b. account_key h b = k)
        (accounts (transformToInternalFormat h patterns ts accountsData d))
       = take 1 (filter (\<lambda>b. account_key h b = k) accountsData)
   \<and> totalNetWorth (transformToInternalFormat h patterns ts accountsData d)
       = sum_list (map (\<lambda>b. or_zero (balance b))
                     (accounts (transformToInternalFormat h patterns ts accountsData d)))
   \<and> list_all
        (\<lambda>e. list_ex
               (\<lambda>item. originates_from h e item
                        \<and> id_account item
                            \<in> acc_id ` set (accounts
                                  (transformToInternalFormat h patterns ts accountsData d)))
               (investments d))
        (all_positions (positions (transformToInternalFormat h patterns ts accountsData d)))
   \<and> transformToInternalFormat h patterns ts accountsData
         (d\<lparr>investments :=
              filter (\<lambda>item. id_account item
                               \<in> acc_id ` set (accounts
                                     (transformToInternalFormat h patterns ts accountsData d)))
                (investments d)\<rparr>)
       = transformToInternalFormat h patterns ts accountsData d"
proof -
  have key: "(iban a = Some i \<and> i \<noteq> [] \<longrightarrow> account_key h a = i)
   \<and> (\<not> present (iban a) \<and> acc_number a = Some n \<and> n \<noteq> [] \<longrightarrow> account_key h a = n)
   \<and> (\<not> present (iban a) \<and> \<not> present (acc_number a) \<and> webid a = Some w \<and> w \<noteq> []
        \<longrightarrow> account_key h a = w)
   \<and> (\<not> present (iban a) \<and> \<not> present (acc_number a) \<and> \<not> present (webid a)
        \<longrightarrow> account_key h a
            = original_name a @ ''-''
              @ (if or_zero (id_type a) \<noteq> 0 then number_text h (or_zero (id_type a))
                 else text_of (acc_type a)))"
    by (simp add: account_key_def present_def text_of_def)
  have acc: "accounts (transformToInternalFormat h patterns ts accountsData d)
               = uniqueAccounts (dedup_accounts h accountsData)"
    by (simp add: transformToInternalFormat_def Let_def)
  have first: "filter (\<lambda>b. account_key h b = k)
     (accounts (transformToInternalFormat h patterns ts accountsData d))
     = take 1 (filter (\<lambda>b. account_key h b = k) accountsData)"
    by (simp only: acc dedup_accounts_first)
  have worth: "totalNetWorth (transformToInternalFormat h patterns ts accountsData d)
       = sum_list (map (\<lambda>b. or_zero (balance b))
                     (accounts (transformToInternalFormat h patterns ts accountsData d)))"
    by (simp add: transformToInternalFormat_def Let_def foldl_add_sum_list)
  have ids: "set (uniqueAccountIds (dedup_accounts h accountsData))
               = acc_id ` set (uniqueAccounts (dedup_accounts h accountsData))"
    using dedup_accounts_seen [of h accountsData] by simp
  have origin: "list_all
        (\<lambda>e. list_ex
               (\<lambda>item. originates_from h e item
                        \<and> id_account item
                            \<in> acc_id ` set (accounts
                                  (transformToInternalFormat h patterns ts accountsData d)))
               (investments d))
        (all_positions (positions (transformToInternalFormat h patterns ts accountsData d)))"
    unfolding list_all_iff list_ex_iff acc ids [symmetric]
    using transform_origin by blast
  have restrict: "transformToInternalFormat h patterns ts accountsData
         (d\<lparr>investments :=
              filter (\<lambda>item. id_account item
                               \<in> acc_id ` set (accounts
                                     (transformToInternalFormat h patterns ts accountsData d)))
                (investments d)\<rparr>)
       = transformToInternalFormat h patterns ts accountsData d"
    unfolding acc by (rule transform_restrict) (simp add: ids)
  from key first worth origin restrict show ?thesis
    by (intro conjI) blast+
qed

text \<open>
  Witness for C6: two views with the IBAN \<^verbatim>\<open>FR76\<close>, a VTI row of the first and a BND row
  of the second. The second view has the key of the first and is dropped, the net worth
  is the balance of the first, and the BND row does not reach the snapshot.
\<close>

theorem account_dedup_first_match_witness:
  "account_key demo_host (account_view 2 (Some ''FR76'') (Some ''N2'') 1000) = ''FR76''
   \<and> filter (\<lambda>b. account_key demo_host b = ''FR76'')
        (accounts (transformToInternalFormat demo_host no_patterns ''2025-01-01'' demo_accounts
           demo_rows))
       = [account_view 1 (Some ''FR76'') (Some ''N1'') 1000]
   \<and> totalNetWorth (transformToInternalFormat demo_host no_patterns ''2025-01-01'' demo_accounts
        demo_rows) = 1000
   \<and> transformToInternalFormat demo_host no_patterns ''2025-01-01'' demo_accounts
        (demo_rows\<lparr>investments := [isin_row ''VTI'' 5 500 1]\<rparr>)
      = transformToInternalFormat demo_host no_patterns ''2025-01-01'' demo_accounts demo_rows
   \<and> map position_key
        (all_positions (positions (transformToInternalFormat demo_host no_patterns ''2025-01-01''
           demo_accounts demo_rows)))
      = [''VTI'']"
proof -
  let ?R = "transformToInternalFormat demo_host no_patterns ''2025-01-01'' demo_accounts demo_rows"
  let ?V1 = "account_view 1 (Some ''FR76'') (Some ''N1'') 1000"
  let ?V2 = "account_view 2 (Some ''FR76'') (Some ''N2'') 1000"
  note t = account_dedup_first_match [of ?V2 "''FR76''" demo_host "''N2''" "''N2''" "''FR76''"
      no_patterns "''2025-01-01''" demo_accounts demo_rows]
  have i: "iban ?V2 = Some ''FR76'' \<and> ''FR76'' \<noteq> []"
    by (simp add: account_view_def)
  from t i have k2: "account_key demo_host ?V2 = ''FR76''"
    by blast
  have accR: "accounts ?R = [?V1]"
    by (simp add: transformToInternalFormat_def Let_def dedup_accounts_def add_account_def
        account_key_def present_def text_of_def account_view_def demo_accounts_def)
  have first: "take 1 (filter (\<lambda>b. account_key demo_host b = ''FR76'') demo_accounts) = [?V1]"
    by (simp add: account_key_def present_def text_of_def account_view_def demo_accounts_def)
  from t first have a: "filter (\<lambda>b. account_key demo_host b = ''FR76'') (accounts ?R) = [?V1]"
    by simp
  from t have "totalNetWorth ?R = sum_list (map (\<lambda>b. or_zero (balance b)) (accounts ?R))"
    by blast
  then have b: "totalNetWorth ?R = 1000"
    by (simp add: accR account_view_def or_zero_def)
  have rows: "filter (\<lambda>item. id_account item \<in> acc_id ` set (accounts ?R)) (investments demo_rows)
                = [isin_row ''VTI'' 5 500 1]"
    by (simp only: accR) (simp add: account_view_def demo_rows_def isin_row_def)
  from t have "transformToInternalFormat demo_host no_patterns ''2025-01-01'' demo_accounts
         (demo_rows\<lparr>investments :=
              filter (\<lambda>item. id_account item \<in> acc_id ` set (accounts ?R))
                (investments demo_rows)\<rparr>) = ?R"
    by blast
  then have c: "transformToInternalFormat demo_host no_patterns ''2025-01-01'' demo_accounts
        (demo_rows\<lparr>investments := [isin_row ''VTI'' 5 500 1]\<rparr>) = ?R"
    by (simp only: rows)
  have p: "map position_key (all_positions (positions ?R)) = [''VTI'']"
    by (simp add: transformToInternalFormat_def Let_def dedup_accounts_def add_account_def
        account_key_def present_def text_of_def account_view_def demo_accounts_def
        demo_rows_def isin_row_def eligible_def or_zero_def to_position_def row_symbol_def
        account_text_def demo_host_def whole_number_text_def nat_text.simps signature_def
        consolidate_def consolidate_step_def dict_get_def empty_dict_def
        object_prototype_names_def dict_set_def object_values_def object_entries_def
        is_array_index_def is_digit_def categorize_def no_patterns_def empty_categories_def
        all_positions_def)
  from k2 a b c p show ?thesis
    by blast
qed

text \<open>
  Counterexample for C6 as stated. Two views of the account with the provider number
  \<^verbatim>\<open>N1\<close>, each with the balance 1000; only the first view carries the IBAN. The key of the
  first is the IBAN and the key of the second is the number, so both views are kept and
  the balance of the one account is counted twice in the net worth.
\<close>

theorem account_views_with_different_keys_both_kept:
  "acc_number (account_view 1 (Some ''FR76'') (Some ''N1'') 1000)
     = acc_number (account_view 2 None (Some ''N1'') 1000)
   \<and> account_key demo_host (account_view 1 (Some ''FR76'') (Some ''N1'') 1000) = ''FR76''
   \<and> account_key demo_host (account_view 2 None (Some ''N1'') 1000) = ''N1''
   \<and> accounts (transformToInternalFormat demo_host no_patterns ''2025-01-01''
        [account_view 1 (Some ''FR76'') (Some ''N1'') 1000,
         account_view 2 None (Some ''N1'') 1000]
        \<lparr>investments = [], total_valuation = 0\<rparr>)
      = [account_view 1 (Some ''FR76'') (Some ''N1'') 1000,
         account_view 2 None (Some ''N1'') 1000]
   \<and> totalNetWorth (transformToInternalFormat demo_host no_patterns ''2025-01-01''
        [account_view 1 (Some ''FR76'') (Some ''N1'') 1000,
         account_view 2 None (Some ''N1'') 1000]
        \<lparr>investments = [], total_valuation = 0\<rparr>) = 2000"
  by (simp add: transformToInternalFormat_def Let_def dedup_accounts_def add_account_def
      account_key_def present_def text_of_def account_view_def or_zero_def)

subsection \<open>Rows that enter the snapshot (C10)\<close>


section \<open>Properties of token discovery, the price cache and the ledger writer\<close>

lemma dict_get_dict_set_same: "dict_get prop (dict_set k v d) k = Found v"
  by (auto simp: dict_get_def dict_set_def update_conv')

lemma cache_hit_iff:
  "cache_hit now config k = Some c
     \<longleftrightarrow> dict_get cached_prop (priceCache config) k = Found c
         \<and> (\<exists>t. timestamp c = Some t
                \<and> real_of_int (now - t) < cacheExpiryHours (discovery config) * 60 * 60 * 1000)"
  by (auto simp: cache_hit_def split: lookup.splits option.splits)

lemma scan_transfers_keys:
  "fst ` set (scan_transfers lower m txs)
     = fst ` set m
       \<union> {k. k \<noteq> [] \<and> (\<exists>tx\<in>set txs. \<exists>a. contractAddress tx = Some a \<and> lower a = k)}"
proof (induction txs arbitrary: m)
  case Nil
  show ?case by simp
next
  case (Cons tx txs)
  show ?case
  proof (cases "contractAddress tx")
    case None
    then show ?thesis using Cons [of m] by auto
  next
    case (Some a)
    show ?thesis
    proof (cases "lower a = []")
      case True
      with Some show ?thesis using Cons [of m] by auto
    next
      case False
      show ?thesis
      proof (cases "map_of m (lower a)")
        case None
        with Some False show ?thesis
          by (auto simp: Cons dom_update)
      next
        case (Some token)
        with \<open>contractAddress tx = Some a\<close> False show ?thesis
          by (auto simp: Cons dom_update)
      qed
    qed
  qed
qed

lemma scan_transfers_distinct:
  "distinct (map fst m) \<Longrightarrow> distinct (map fst (scan_transfers lower m txs))"
  by (induction txs arbitrary: m) (auto simp: distinct_update split: option.splits)

lemma scan_transfers_address:
  "\<forall>kv\<in>set m. address (snd kv) = fst kv
     \<Longrightarrow> \<forall>kv\<in>set (scan_transfers lower m txs). address (snd kv) = fst kv"
proof (induction txs arbitrary: m)
  case Nil
  then show ?case by simp
next
  case (Cons tx txs)
  have upd: "\<forall>kv\<in>set (AList.update k v m). address (snd kv) = fst kv"
    if "address v = k" for k v
  proof
    fix kv assume "kv \<in> set (AList.update k v m)"
    then have "kv = (k, v) \<or> kv \<in> set m"
      by (induction m) (auto split: if_splits)
    with that Cons.prems show "address (snd kv) = fst kv" by auto
  qed
  show ?case
  proof (cases "contractAddress tx")
    case None
    with Cons show ?thesis by simp
  next
    case (Some a)
    show ?thesis
    proof (cases "lower a = []")
      case True
      with Some Cons show ?thesis by simp
    next
      case False
      show ?thesis
      proof (cases "map_of m (lower a)")
        case None
        let ?v = "\<lparr>address = lower a, firstSeen = timeStamp tx, lastSeen = timeStamp tx,
                   transactionCount = 1\<rparr>"
        have "address ?v = lower a" by simp
        from Cons.IH [OF upd [OF this]] None \<open>contractAddress tx = Some a\<close> False
        show ?thesis by simp
      next
        case (Some token)
        let ?v = "token\<lparr>transactionCount := transactionCount token + 1,
                         lastSeen := timeStamp tx\<rparr>"
        from Some have "(lower a, token) \<in> set m" by (rule map_of_SomeD)
        with Cons.prems have "address ?v = lower a" by auto
        from Cons.IH [OF upd [OF this]] Some \<open>contractAddress tx = Some a\<close> False
        show ?thesis by simp
      qed
    qed
  qed
qed

subsection \<open>Token discovery (C7)\<close>

text \<open>
  Claim C7, as amended. When discovery is enabled, the chain has an explorer API and the
  explorer answers with status \<^verbatim>\<open>1\<close>, \<^verbatim>\<open>discoverTokens\<close> returns one token for every
  distinct non-empty lower-cased contract address of the scanned transfers, whether the
  address is registered or not: the result does not depend on the token database or on
  the known tokens. It is the inventory of the scanned history, not a delta.
\<close>

theorem discovery_returns_every_address:
  assumes "enabled (discovery config)"
    and "dict_get (\<lambda>c k. None) (chains config) chainName = Found chainConfig"
    and "explorerApiUrl chainConfig \<noteq> []"
    and "explorer (explorerApiUrl chainConfig) walletAddress
           (maxTransactionsToScan (discovery config)) = Reply ''1'' txs"
  shows "\<exists>found. discoverTokens lower explorer config walletAddress chainName = Inr found
           \<and> distinct (map address found)
           \<and> set (map address found)
               = {k. k \<noteq> [] \<and> (\<exists>tx\<in>set txs. \<exists>a. contractAddress tx = Some a \<and> lower a = k)}
           \<and> discoverTokens lower explorer (config\<lparr>tokenDatabase := db, knownTokens := kts\<rparr>)
                 walletAddress chainName = Inr found"
proof -
  let ?m = "scan_transfers lower [] txs"
  have a: "map address (map snd ?m) = map fst ?m"
    using scan_transfers_address [of "[]" lower txs] by simp
  have d: "distinct (map fst ?m)"
    by (rule scan_transfers_distinct) simp
  have k: "set (map fst ?m)
             = {k. k \<noteq> [] \<and> (\<exists>tx\<in>set txs. \<exists>a. contractAddress tx = Some a \<and> lower a = k)}"
    using scan_transfers_keys [of lower "[]" txs] by simp
  have r: "discoverTokens lower explorer config walletAddress chainName = Inr (map snd ?m)"
    using assms by (simp add: discoverTokens_def)
  have r': "discoverTokens lower explorer (config\<lparr>tokenDatabase := db, knownTokens := kts\<rparr>)
              walletAddress chainName = Inr (map snd ?m)"
    using assms by (simp add: discoverTokens_def)
  from r r' d k show ?thesis
    unfolding a [symmetric] by blast
qed

text \<open>Witness for C7: scenario E of the specification.\<close>

theorem discovery_returns_every_address_witness:
  "\<exists>found. discoverTokens ascii_lower demo_explorer demo_config ''0xwallet'' ''ethereum''
              = Inr found
           \<and> distinct (map address found)
           \<and> map address found = [''0xabc'', ''0xdef'']"
proof -
  have e: "enabled (discovery demo_config)"
    by (simp add: demo_config_def)
  have c: "dict_get (\<lambda>c k. None) (chains demo_config) ''ethereum''
             = Found \<lparr>chain_name = ''Ethereum'', chainId = 1, rpcUrl = ''https://rpc'',
                      explorerUrl = ''https://scan'', explorerApiUrl = ''https://scan/api''\<rparr>"
    by (simp add: demo_config_def dict_get_def)
  have u: "explorerApiUrl \<lparr>chain_name = ''Ethereum'', chainId = 1, rpcUrl = ''https://rpc'',
                      explorerUrl = ''https://scan'', explorerApiUrl = ''https://scan/api''\<rparr>
             \<noteq> []"
    by simp
  have x: "demo_explorer (explorerApiUrl \<lparr>chain_name = ''Ethereum'', chainId = 1,
                      rpcUrl = ''https://rpc'', explorerUrl = ''https://scan'',
                      explorerApiUrl = ''https://scan/api''\<rparr>) ''0xwallet''
             (maxTransactionsToScan (discovery demo_config)) = Reply ''1'' demo_transfers"
    by (simp add: demo_explorer_def)
  from discovery_returns_every_address
         [where explorer = demo_explorer and lower = ascii_lower and walletAddress = "''0xwallet''",
          OF e c u x]
  obtain found
    where f: "discoverTokens ascii_lower demo_explorer demo_config ''0xwallet'' ''ethereum''
                = Inr found"
      and d: "distinct (map address found)"
    by blast
  let ?L = "[\<lparr>address = ''0xabc'', firstSeen = ''100'', lastSeen = ''400'',
                  transactionCount = 3\<rparr>,
                 \<lparr>address = ''0xdef'', firstSeen = ''200'', lastSeen = ''200'',
                  transactionCount = 1\<rparr>]"
  have ev: "discoverTokens ascii_lower demo_explorer demo_config ''0xwallet'' ''ethereum''
          = Inr ?L"
    by code_simp
  from f [symmetric] ev have "(Inr found :: js_error + DiscoveredToken list) = Inr ?L"
    by (rule trans)
  then have "found = ?L"
    by (simp only: sum.inject)
  then have m: "map address found = [''0xabc'', ''0xdef'']"
    by simp
  show ?thesis
  proof (intro exI conjI)
    show "discoverTokens ascii_lower demo_explorer demo_config ''0xwallet'' ''ethereum''
            = Inr found"
      by (rule f)
    show "distinct (map address found)"
      by (rule d)
    show "map address found = [''0xabc'', ''0xdef'']"
      by (rule m)
  qed
qed

text \<open>
  Counterexample for C7 as stated: in scenario E the contract \<^verbatim>\<open>0xABC\<close> is in the
  token database and among the known tokens, and \<^verbatim>\<open>discoverTokens\<close> returns it,
  with its three transfers, next to \<^verbatim>\<open>0xDEF\<close>.
\<close>

theorem discovery_returns_registered_address:
  "discoverTokens ascii_lower demo_explorer demo_config ''0xwallet'' ''ethereum''
     = Inr [\<lparr>address = ''0xabc'', firstSeen = ''100'', lastSeen = ''400'',
             transactionCount = 3\<rparr>,
            \<lparr>address = ''0xdef'', firstSeen = ''200'', lastSeen = ''200'',
             transactionCount = 1\<rparr>]
   \<and> in_token_database ascii_lower demo_config ''ethereum'' ''0xabc''
   \<and> alreadyKnown ascii_lower (known_tokens_of demo_config ''ethereum'')
        \<lparr>address = ''0xabc'', firstSeen = ''100'', lastSeen = ''400'', transactionCount = 3\<rparr>"
  by code_simp

subsection \<open>Price cache (C8)\<close>

text \<open>
  Claim C8. For every price lookup: the cache answers exactly when it holds an entry
  under the cache key whose age is strictly below the expiry window; then the cached
  price is returned and the pricing source is not consulted. Otherwise the lookup is a
  miss: a fresh quote is stored under the key with the current time and the source
  \<^verbatim>\<open>coingecko\<close> and is returned, and a failed fetch yields the price \<open>0\<close> and no
  error (the function always returns a price).
\<close>

theorem price_cache_contract:
  "(cache_hit now config (cache_key lower tokenSymbol coingeckoId) = Some c
      \<longleftrightarrow> dict_get cached_prop (priceCache config) (cache_key lower tokenSymbol coingeckoId)
            = Found c
          \<and> (\<exists>t. timestamp c = Some t
                 \<and> real_of_int (now - t) < cacheExpiryHours (discovery config) * 60 * 60 * 1000))
   \<and> (cache_hit now config (cache_key lower tokenSymbol coingeckoId) = Some c
        \<longrightarrow> getTokenPrice lower now storedAt fetch config tokenSymbol coingeckoId
            = (price c, config))
   \<and> (cache_hit now config (cache_key lower tokenSymbol coingeckoId) = None
        \<and> fetch (cache_key lower tokenSymbol coingeckoId) = Failed
        \<longrightarrow> getTokenPrice lower now storedAt fetch config tokenSymbol coingeckoId = (0, config))
   \<and> (cache_hit now config (cache_key lower tokenSymbol coingeckoId) = None
        \<and> fetch (cache_key lower tokenSymbol coingeckoId) = Quote usd
        \<longrightarrow> fst (getTokenPrice lower now storedAt fetch config tokenSymbol coingeckoId)
              = or_zero usd
            \<and> dict_get cached_prop
                 (priceCache
                    (snd (getTokenPrice lower now storedAt fetch config tokenSymbol coingeckoId)))
                 (cache_key lower tokenSymbol coingeckoId)
               = Found \<lparr>price = or_zero usd, timestamp = Some storedAt, source = ''coingecko''\<rparr>)"
proof (intro conjI impI)
  show "cache_hit now config (cache_key lower tokenSymbol coingeckoId) = Some c
      \<longleftrightarrow> dict_get cached_prop (priceCache config) (cache_key lower tokenSymbol coingeckoId)
            = Found c
          \<and> (\<exists>t. timestamp c = Some t
                 \<and> real_of_int (now - t) < cacheExpiryHours (discovery config) * 60 * 60 * 1000)"
    by (rule cache_hit_iff)
next
  assume "cache_hit now config (cache_key lower tokenSymbol coingeckoId) = Some c"
  then show "getTokenPrice lower now storedAt fetch config tokenSymbol coingeckoId
               = (price c, config)"
    by (simp add: getTokenPrice_def Let_def)
next
  assume "cache_hit now config (cache_key lower tokenSymbol coingeckoId) = None
          \<and> fetch (cache_key lower tokenSymbol coingeckoId) = Failed"
  then show "getTokenPrice lower now storedAt fetch config tokenSymbol coingeckoId = (0, config)"
    by (simp add: getTokenPrice_def Let_def)
next
  assume a: "cache_hit now config (cache_key lower tokenSymbol coingeckoId) = None
          \<and> fetch (cache_key lower tokenSymbol coingeckoId) = Quote usd"
  then show "fst (getTokenPrice lower now storedAt fetch config tokenSymbol coingeckoId)
               = or_zero usd"
    by (simp add: getTokenPrice_def Let_def)
  from a show "dict_get cached_prop
                 (priceCache
                    (snd (getTokenPrice lower now storedAt fetch config tokenSymbol coingeckoId)))
                 (cache_key lower tokenSymbol coingeckoId)
               = Found \<lparr>price = or_zero usd, timestamp = Some storedAt, source = ''coingecko''\<rparr>"
    by (simp add: getTokenPrice_def Let_def dict_get_dict_set_same)
qed

text \<open>Witness for C8: an entry written at time 1000 under a window of one hour is
  returned at time 3600999 and is stale at time 3601000.\<close>

theorem price_cache_contract_witness:
  "getTokenPrice ascii_lower 3600999 3601005 (\<lambda>coinId. Failed) demo_config ''ABC'' (Some ''abc'')
     = (2, demo_config)
   \<and> getTokenPrice ascii_lower 3601000 3601005 (\<lambda>coinId. Failed) demo_config ''ABC''
        (Some ''abc'')
     = (0, demo_config)
   \<and> fst (getTokenPrice ascii_lower 3601000 3601005 (\<lambda>coinId. Quote (Some 3)) demo_config
            ''ABC'' (Some ''abc'')) = 3
   \<and> dict_get cached_prop
        (priceCache (snd (getTokenPrice ascii_lower 3601000 3601005 (\<lambda>coinId. Quote (Some 3))
                            demo_config ''ABC'' (Some ''abc''))))
        ''abc''
      = Found \<lparr>price = 3, timestamp = Some 3601005, source = ''coingecko''\<rparr>"
proof -
  let ?c = "\<lparr>price = 2, timestamp = Some 1000, source = ''coingecko''\<rparr>"
  have k: "cache_key ascii_lower ''ABC'' (Some ''abc'') = ''abc''"
    by (simp add: cache_key_def present_def text_of_def)
  have hit: "cache_hit 3600999 demo_config (cache_key ascii_lower ''ABC'' (Some ''abc'')) = Some ?c"
    unfolding k by (simp add: cache_hit_def demo_config_def dict_get_def)
  have miss: "cache_hit 3601000 demo_config (cache_key ascii_lower ''ABC'' (Some ''abc'')) = None"
    unfolding k by (simp add: cache_hit_def demo_config_def dict_get_def)
  have a: "getTokenPrice ascii_lower 3600999 3601005 (\<lambda>coinId. Failed) demo_config ''ABC''
             (Some ''abc'')
             = (price ?c, demo_config)"
    using price_cache_contract [of 3600999 demo_config ascii_lower "''ABC''" "Some ''abc''" ?c
        3601005 "\<lambda>coinId. Failed"] hit
    by blast
  have b: "getTokenPrice ascii_lower 3601000 3601005 (\<lambda>coinId. Failed) demo_config ''ABC''
             (Some ''abc'')
             = (0, demo_config)"
    using price_cache_contract [of 3601000 demo_config ascii_lower "''ABC''" "Some ''abc''" ?c
        3601005 "\<lambda>coinId. Failed"] miss
    by blast
  have c: "fst (getTokenPrice ascii_lower 3601000 3601005 (\<lambda>coinId. Quote (Some 3)) demo_config
            ''ABC'' (Some ''abc'')) = or_zero (Some 3)
           \<and> dict_get cached_prop
        (priceCache (snd (getTokenPrice ascii_lower 3601000 3601005 (\<lambda>coinId. Quote (Some 3))
                            demo_config ''ABC'' (Some ''abc''))))
        (cache_key ascii_lower ''ABC'' (Some ''abc''))
      = Found \<lparr>price = or_zero (Some 3), timestamp = Some 3601005, source = ''coingecko''\<rparr>"
    using price_cache_contract [of 3601000 demo_config ascii_lower "''ABC''" "Some ''abc''" ?c
        3601005 "\<lambda>coinId. Quote (Some 3)" "Some 3"] miss
    by blast
  from a b c show ?thesis
    by (simp add: k or_zero_def)
qed

subsection \<open>Ledger writer (C9)\<close>

text \<open>
  Claim C9, as amended. For a ledger file that is missing or holds a ledger document, the
  document handed to the file writer has the previously stored entries, unchanged and in
  order, followed by exactly one new entry, and a successful write leaves exactly that
  sequence in the file; a missing ledger file is tolerated by starting from an empty
  entry list.
\<close>

theorem ledger_append_only:
  "logToLedger disk entryType st details runId stamp isoTime Absent
     = disk \<lparr>entries = [new_entry entryType st details runId stamp isoTime], schema = ''{}''\<rparr>
   \<and> (ledgerFile \<noteq> Corrupt \<longrightarrow>
        (\<exists>l. logToLedger disk entryType st details runId stamp isoTime ledgerFile = disk l
              \<and> entries l = stored_entries ledgerFile
                              @ [new_entry entryType st details runId stamp isoTime]
              \<and> (disk l = Stored l \<longrightarrow>
                    stored_entries
                      (logToLedger disk entryType st details runId stamp isoTime ledgerFile)
                    = stored_entries ledgerFile
                      @ [new_entry entryType st details runId stamp isoTime])))"
proof
  show "logToLedger disk entryType st details runId stamp isoTime Absent
     = disk \<lparr>entries = [new_entry entryType st details runId stamp isoTime], schema = ''{}''\<rparr>"
    by (simp add: logToLedger_def Let_def)
next
  show "ledgerFile \<noteq> Corrupt \<longrightarrow>
        (\<exists>l. logToLedger disk entryType st details runId stamp isoTime ledgerFile = disk l
              \<and> entries l = stored_entries ledgerFile
                              @ [new_entry entryType st details runId stamp isoTime]
              \<and> (disk l = Stored l \<longrightarrow>
                    stored_entries
                      (logToLedger disk entryType st details runId stamp isoTime ledgerFile)
                    = stored_entries ledgerFile
                      @ [new_entry entryType st details runId stamp isoTime]))"
    by (cases ledgerFile) (force simp: logToLedger_def stored_entries_def Let_def)+
qed

text \<open>
  Witness for C9: the second write, to a ledger file that holds the entry of the first
  run; every write to the disk succeeds.
\<close>

theorem ledger_append_only_witness:
  "stored_entries
     (logToLedger Stored ''position_change'' ''completed''
        \<lparr>details_summary = None, details_notes = Some ''second run'',
         details_symbol = Some ''VTI'', details_change_type = Some ''new'',
         details_value = Some 500, details_shares = Some 5\<rparr>
        (Some ''fetch-2'') ''2025-01-02-00-00-00'' ''2025-01-02T00:00:00.000Z''
        (Stored \<lparr>entries =
            [new_entry ''data_collection'' ''completed''
               \<lparr>details_summary = None, details_notes = Some ''first run'',
                details_symbol = None, details_change_type = None, details_value = None,
                details_shares = None\<rparr>
               (Some ''fetch-1'') ''2025-01-01-00-00-00'' ''2025-01-01T00:00:00.000Z''],
           schema = ''{}''\<rparr>))
   = [new_entry ''data_collection'' ''completed''
        \<lparr>details_summary = None, details_notes = Some ''first run'',
         details_symbol = None, details_change_type = None, details_value = None,
         details_shares = None\<rparr>
        (Some ''fetch-1'') ''2025-01-01-00-00-00'' ''2025-01-01T00:00:00.000Z'',
      new_entry ''position_change'' ''completed''
        \<lparr>details_summary = None, details_notes = Some ''second run'',
         details_symbol = Some ''VTI'', details_change_type = Some ''new'',
         details_value = Some 500, details_shares = Some 5\<rparr>
        (Some ''fetch-2'') ''2025-01-02-00-00-00'' ''2025-01-02T00:00:00.000Z'']"
proof -
  let ?d1 = "\<lparr>details_summary = None, details_notes = Some ''first run'',
                details_symbol = None, details_change_type = None, details_value = None,
                details_shares = None\<rparr>"
  let ?d2 = "\<lparr>details_summary = None, details_notes = Some ''second run'',
         details_symbol = Some ''VTI'', details_change_type = Some ''new'',
         details_value = Some 500, details_shares = Some 5\<rparr>"
  let ?e1 = "new_entry ''data_collection'' ''completed'' ?d1 (Some ''fetch-1'')
               ''2025-01-01-00-00-00'' ''2025-01-01T00:00:00.000Z''"
  let ?e2 = "new_entry ''position_change'' ''completed'' ?d2 (Some ''fetch-2'')
               ''2025-01-02-00-00-00'' ''2025-01-02T00:00:00.000Z''"
  let ?file = "Stored \<lparr>entries = [?e1], schema = ''{}''\<rparr>"
  have f: "?file \<noteq> Corrupt" by simp
  from ledger_append_only [of Stored "''position_change''" "''completed''" ?d2
      "Some ''fetch-2''" "''2025-01-02-00-00-00''" "''2025-01-02T00:00:00.000Z''" ?file] f
  obtain l where "stored_entries
        (logToLedger Stored ''position_change'' ''completed'' ?d2 (Some ''fetch-2'')
           ''2025-01-02-00-00-00'' ''2025-01-02T00:00:00.000Z'' ?file)
      = stored_entries ?file @ [?e2]"
    by blast
  then show ?thesis
    by (simp add: stored_entries_def)
qed

text \<open>
  Counterexample for C9 as stated. The ledger file has just been created and holds no
  ledger document yet (it is empty, or holds an object without entries). Reading it
  throws, nothing is handed to the file writer, and after the call the file holds no
  entry: the writer did not start from an empty entry list.
\<close>

theorem ledger_new_file_not_started:
  "logToLedger Stored ''data_collection'' ''completed''
     \<lparr>details_summary = None, details_notes = Some ''first run'', details_symbol = None,
      details_change_type = None, details_value = None, details_shares = None\<rparr>
     (Some ''fetch-1'') ''2025-01-01-00-00-00'' ''2025-01-01T00:00:00.000Z'' Corrupt
   = Corrupt
   \<and> stored_entries
        (logToLedger Stored ''data_collection'' ''completed''
           \<lparr>details_summary = None, details_notes = Some ''first run'', details_symbol = None,
            details_change_type = None, details_value = None, details_shares = None\<rparr>
           (Some ''fetch-1'') ''2025-01-01-00-00-00'' ''2025-01-01T00:00:00.000Z'' Corrupt)
     \<noteq> [new_entry ''data_collection'' ''completed''
           \<lparr>details_summary = None, details_notes = Some ''first run'', details_symbol = None,
            details_change_type = None, details_value = None, details_shares = None\<rparr>
           (Some ''fetch-1'') ''2025-01-01-00-00-00'' ''2025-01-01T00:00:00.000Z'']"
  by (simp add: logToLedger_def stored_entries_def)

end
